theory Spec2Isabelle
  imports Main "HOL-Library.Char_ord" "HOL-Library.List_Lexorder"
begin

section \<open>Interactive SAS device verification (crypto/verification.go)\<close>

text \<open>
  A shallow embedding of the SAS verification engine of the Olm machine. Go strings are
  byte strings (\<open>string\<close>); their order is the bytewise lexicographic order, which is
  the order of \<open>char list\<close> here. A Go map is an association list in the order the
  runtime happens to iterate it, with distinct keys; a nil map is \<open>None\<close>.
\<close>

subsection \<open>Identifiers, errors and wire constants\<close>

type_synonym UserID = string
type_synonym DeviceID = string
type_synonym KeyID = string
type_synonym SigningKey = string
type_synonym SASMethod = string

datatype error =
    ErrUnknownTransaction
  | ErrUnknownVerificationMethod
  | ErrorString string
  | ExternalError string

datatype VerificationCancelCode =
    VerificationCancelByUser
  | VerificationCancelByTimeout
  | VerificationCancelUnknownTransaction
  | VerificationCancelUnknownMethod
  | VerificationCancelUnexpectedMessage
  | VerificationCancelKeyMismatch
  | VerificationCancelUserMismatch
  | VerificationCancelSASMismatch
  | VerificationCancelCommitmentMismatch

datatype VerificationRequestResponse = AcceptRequest | RejectRequest | IgnoreRequest

datatype TrustState = TrustStateUnset | TrustStateVerified | TrustStateBlacklisted | TrustStateIgnored

record DeviceIdentity =
  UserID :: UserID
  DeviceID :: DeviceID
  IdentityKey :: string
  SigningKey :: SigningKey
  Trust :: TrustState
  Deleted :: bool
  Name :: string

record VerificationMethod =
  Type :: SASMethod

record VerificationHooks =
  hooksID :: nat
  VerificationMethods :: "VerificationMethod list"

subsection \<open>Event contents\<close>

record VerificationStartEventContent =
  start_FromDevice :: DeviceID
  start_TransactionID :: string
  start_Method :: string
  start_KeyAgreementProtocols :: "string list"
  start_Hashes :: "string list"
  start_MessageAuthenticationCodes :: "string list"
  start_ShortAuthenticationString :: "SASMethod list"

record VerificationAcceptEventContent =
  accept_TransactionID :: string
  accept_Method :: string
  accept_KeyAgreementProtocol :: string
  accept_Hash :: string
  accept_MessageAuthenticationCode :: string
  accept_ShortAuthenticationString :: "SASMethod list"
  accept_Commitment :: string

record VerificationKeyEventContent =
  key_TransactionID :: string
  key_Key :: string

record VerificationMacEventContent =
  mac_TransactionID :: string
  mac_Keys :: string
  mac_Mac :: "(KeyID \<times> string) list option"

record VerificationCancelEventContent =
  cancel_TransactionID :: string
  cancel_Reason :: string
  cancel_Code :: VerificationCancelCode


datatype Content =
    ToDeviceVerificationStart VerificationStartEventContent
  | ToDeviceVerificationAccept VerificationAcceptEventContent
  | ToDeviceVerificationKey VerificationKeyEventContent
  | ToDeviceVerificationMAC VerificationMacEventContent
  | ToDeviceVerificationCancel VerificationCancelEventContent

record ToDevice =
  toUser :: UserID
  toDevice :: DeviceID
  content :: Content

subsection \<open>External collaborators\<close>

text \<open>
  The Olm primitives, the JSON canonicaliser, the device directory, the host's accept
  callback, the transport and the constants of the \<open>event\<close> and \<open>id\<close> packages are
  not part of the verification source; they are parameters. \<open>CanonicalJSON\<close> stands for
  \<open>json.Marshal\<close> followed by \<open>canonicaljson.CanonicalJSON\<close>; \<open>NewSAS\<close> and
  \<open>randInt\<close> are indexed by the number of random draws made so far.
\<close>

record 'sas Collaborators =
  Sha256 :: "string \<Rightarrow> string"
  CalculateMAC :: "'sas \<Rightarrow> string \<Rightarrow> string \<Rightarrow> error + string"
  SetTheirKey :: "'sas \<Rightarrow> string \<Rightarrow> error + 'sas"
  GetPubkey :: "'sas \<Rightarrow> string"
  NewSAS :: "nat \<Rightarrow> 'sas"
  randInt :: "nat \<Rightarrow> nat"
  CanonicalJSON :: "VerificationStartEventContent \<Rightarrow> error + string"
  GetVerificationSAS :: "VerificationMethod \<Rightarrow> UserID \<Rightarrow> DeviceID \<Rightarrow> string \<Rightarrow>
     UserID \<Rightarrow> DeviceID \<Rightarrow> string \<Rightarrow> string \<Rightarrow> 'sas \<Rightarrow> error + string"
  GetOrFetchDevice :: "UserID \<Rightarrow> DeviceID \<Rightarrow> error + DeviceIdentity"
  AcceptVerificationFrom :: "string \<Rightarrow> DeviceIdentity \<Rightarrow> VerificationRequestResponse \<times> VerificationHooks"
  SendToDevice :: "ToDevice \<Rightarrow> error option"
  NewKeyID :: "string \<Rightarrow> string \<Rightarrow> KeyID"
  KeyAlgorithmEd25519 :: string
  VerificationMethodSAS :: string
  KeyAgreementCurve25519HKDFSHA256 :: string
  VerificationHashSHA256 :: string
  HKDFHMACSHA256 :: string
  SASDecimal :: SASMethod

subsection \<open>getPKAndKeysMAC\<close>

text \<open>\<open>strings.Join\<close>.\<close>

fun Join :: "string list \<Rightarrow> string \<Rightarrow> string" where
  "Join [] sep = []"
| "Join [x] sep = x"
| "Join (x # y # ys) sep = x @ sep @ Join (y # ys) sep"

text \<open>
  The key ids of the map are collected in iteration order, sorted with
  \<open>sort.StringSlice\<close> and joined; with a nil map the main key id stands alone.
\<close>

definition getPKAndKeysMAC ::
  "'sas Collaborators \<Rightarrow> 'sas \<Rightarrow> UserID \<Rightarrow> DeviceID \<Rightarrow> UserID \<Rightarrow> DeviceID \<Rightarrow> string \<Rightarrow>
   SigningKey \<Rightarrow> KeyID \<Rightarrow> (KeyID \<times> string) list option \<Rightarrow> error + (string \<times> string)" where
  "getPKAndKeysMAC X sas sendingUser sendingDevice receivingUser receivingDevice
       transactionID signingKey mainKeyID keys =
    (let sasInfo = ''MATRIX_KEY_VERIFICATION_MAC'' @
           sendingUser @ sendingDevice @
           receivingUser @ receivingDevice @
           transactionID;
         keyIDString = (case keys of
             None \<Rightarrow> mainKeyID
           | Some kvs \<Rightarrow> Join (sort (map fst kvs)) '','')
     in case CalculateMAC X sas signingKey (sasInfo @ mainKeyID) of
          Inl err \<Rightarrow> Inl err
        | Inr pubKeyMac \<Rightarrow>
            (case CalculateMAC X sas keyIDString (sasInfo @ ''KEY_IDS'') of
               Inl err \<Rightarrow> Inl err
             | Inr keysMac \<Rightarrow> Inr (pubKeyMac, keysMac)))"

text \<open>A MAC primitive that returns its own \<open>info\<close> argument, to observe what is passed.\<close>

definition echoInfo :: "'sas Collaborators \<Rightarrow> 'sas Collaborators" where
  "echoInfo X = X\<lparr>CalculateMAC := (\<lambda>sas input info. Inr info)\<rparr>"

subsection \<open>commonSASMethods\<close>

text \<open>The inner loop over the other device's methods, left at the first match.\<close>

fun otherDeviceHas :: "SASMethod \<Rightarrow> SASMethod list \<Rightarrow> bool" where
  "otherDeviceHas hookMethodType [] = False"
| "otherDeviceHas hookMethodType (otherMethod # rest) =
     (if hookMethodType = otherMethod then True else otherDeviceHas hookMethodType rest)"

text \<open>The outer loop over the hooks' methods, appending to \<open>methods\<close>.\<close>

fun commonSASMethods_loop ::
  "VerificationMethod list \<Rightarrow> SASMethod list \<Rightarrow> VerificationMethod list \<Rightarrow> VerificationMethod list" where
  "commonSASMethods_loop [] otherDeviceMethods methods = methods"
| "commonSASMethods_loop (hookMethod # rest) otherDeviceMethods methods =
     commonSASMethods_loop rest otherDeviceMethods
       (if otherDeviceHas (Type hookMethod) otherDeviceMethods then methods @ [hookMethod] else methods)"

definition commonSASMethods :: "VerificationHooks \<Rightarrow> SASMethod list \<Rightarrow> VerificationMethod list" where
  "commonSASMethods hooks otherDeviceMethods =
     commonSASMethods_loop (VerificationMethods hooks) otherDeviceMethods []"

subsection \<open>Machine state\<close>

text \<open>
  The timeout context of a transaction: running, cancelled by \<open>extendTimeout\<close>, or past
  its deadline. The field \<open>extendTimeout\<close> of a state holds the context its cancel
  function belongs to; \<open>None\<close> is the nil function of a state whose timer was never armed.
\<close>

datatype timeoutCtx = CtxRunning | CtxCanceled | CtxDeadlineExceeded

text \<open>\<open>sasMatched\<close> is a channel of capacity one: empty or holding one value.\<close>

record 'sas verificationState =
  sas :: 'sas
  otherDevice :: DeviceIdentity
  initiatedByUs :: bool
  verificationStarted :: bool
  keyReceived :: bool
  sasMatched :: "bool option"
  commitment :: string
  startEventCanonical :: string
  chosenSASMethod :: "VerificationMethod option"
  hooks :: VerificationHooks
  extendTimeout :: "timeoutCtx option"

text \<open>Calls made to the host's hooks, with the identity of the hook set.\<close>

datatype HookCall =
    OnCancel nat bool string VerificationCancelCode
  | OnSuccess nat

text \<open>
  Goroutines started by the handlers and not yet finished: the SAS comparison started by
  \<open>handleVerificationKey\<close> (state, device, SAS, transaction id), the MAC check started by
  \<open>handleVerificationMAC\<close> (state, message) and the timer loop of \<open>timeoutAfter\<close>
  (state, transaction id).
\<close>

datatype goroutine =
    GoVerifySASMatch nat DeviceIdentity string string
  | GoVerifyMAC nat VerificationMacEventContent
  | GoTimeout nat string

text \<open>
  The machine: the transaction map holds pointers, so states live in \<open>verStates\<close> under
  an address and stay reachable by goroutines after \<open>Delete\<close>. \<open>sent\<close> lists every
  to-device message handed to the transport, \<open>putDeviceCalls\<close> every write to the
  crypto store.
\<close>

record 'sas OlmMachine =
  Client_UserID :: UserID
  Client_DeviceID :: DeviceID
  account_SigningKey :: SigningKey
  keyVerificationTransactionState :: "string \<rightharpoonup> nat"
  verStates :: "nat \<Rightarrow> 'sas verificationState"
  allocated :: nat
  draws :: nat
  sent :: "ToDevice list"
  hookCalls :: "HookCall list"
  putDeviceCalls :: "(UserID \<times> DeviceIdentity) list"
  goroutines :: "goroutine list"

definition mapKey :: "UserID \<Rightarrow> string \<Rightarrow> string" where
  "mapKey userID transactionID = userID @ '':'' @ transactionID"

definition Delete :: "string \<Rightarrow> 'sas OlmMachine \<Rightarrow> 'sas OlmMachine" where
  "Delete k mach =
     mach\<lparr>keyVerificationTransactionState := (keyVerificationTransactionState mach)(k := None)\<rparr>"

definition updVerState ::
  "nat \<Rightarrow> ('sas verificationState \<Rightarrow> 'sas verificationState) \<Rightarrow> 'sas OlmMachine \<Rightarrow> 'sas OlmMachine" where
  "updVerState a f mach = mach\<lparr>verStates := (verStates mach)(a := f (verStates mach a))\<rparr>"

text \<open>The storing branch of \<open>LoadOrStore\<close>: the new state gets a fresh address.\<close>

definition Store :: "string \<Rightarrow> 'sas verificationState \<Rightarrow> 'sas OlmMachine \<Rightarrow> 'sas OlmMachine \<times> nat" where
  "Store k verState mach =
     (mach\<lparr>keyVerificationTransactionState := (keyVerificationTransactionState mach)(k \<mapsto> allocated mach),
           verStates := (verStates mach)(allocated mach := verState),
           allocated := Suc (allocated mach)\<rparr>, allocated mach)"

text \<open>\<open>strconv.Itoa\<close> on a non-negative number.\<close>

fun Itoa :: "nat \<Rightarrow> string" where
  "Itoa n = (if n < 10 then [char_of (48 + n)] else Itoa (n div 10) @ [char_of (48 + n mod 10)])"

declare Itoa.simps [simp del]

subsection \<open>Sending\<close>

definition sendToOneDevice ::
  "'sas Collaborators \<Rightarrow> UserID \<Rightarrow> DeviceID \<Rightarrow> Content \<Rightarrow> 'sas OlmMachine \<Rightarrow> 'sas OlmMachine \<times> error option" where
  "sendToOneDevice X userID deviceID c mach =
     (let msg = \<lparr>toUser = userID, toDevice = deviceID, content = c\<rparr>
      in (mach\<lparr>sent := sent mach @ [msg]\<rparr>, SendToDevice X msg))"

definition SendSASVerificationCancel ::
  "'sas Collaborators \<Rightarrow> UserID \<Rightarrow> DeviceID \<Rightarrow> string \<Rightarrow> string \<Rightarrow> VerificationCancelCode \<Rightarrow>
   'sas OlmMachine \<Rightarrow> 'sas OlmMachine \<times> error option" where
  "SendSASVerificationCancel X userID deviceID transactionID reason code mach =
     sendToOneDevice X userID deviceID
       (ToDeviceVerificationCancel
          \<lparr>cancel_TransactionID = transactionID, cancel_Reason = reason, cancel_Code = code\<rparr>) mach"

definition SendSASVerificationStart ::
  "'sas Collaborators \<Rightarrow> UserID \<Rightarrow> DeviceID \<Rightarrow> string \<Rightarrow> VerificationMethod list \<Rightarrow>
   'sas OlmMachine \<Rightarrow> 'sas OlmMachine \<times> VerificationStartEventContent \<times> error option" where
  "SendSASVerificationStart X toUserID toDeviceID transactionID methods mach =
     (let sasMethods = map Type methods;
          c = \<lparr>start_FromDevice = Client_DeviceID mach,
               start_TransactionID = transactionID,
               start_Method = VerificationMethodSAS X,
               start_KeyAgreementProtocols = [KeyAgreementCurve25519HKDFSHA256 X],
               start_Hashes = [VerificationHashSHA256 X],
               start_MessageAuthenticationCodes = [HKDFHMACSHA256 X],
               start_ShortAuthenticationString = sasMethods\<rparr>
      in case sendToOneDevice X toUserID toDeviceID (ToDeviceVerificationStart c) mach of
           (mach', err) \<Rightarrow> (mach', c, err))"

definition SendSASVerificationAccept ::
  "'sas Collaborators \<Rightarrow> UserID \<Rightarrow> VerificationStartEventContent \<Rightarrow> string \<Rightarrow> VerificationMethod list \<Rightarrow>
   'sas OlmMachine \<Rightarrow> 'sas OlmMachine \<times> error option" where
  "SendSASVerificationAccept X fromUser startEvent publicKey methods mach =
     (if start_Method startEvent \<noteq> VerificationMethodSAS X then
        (let reason = ''Unknown verification method: '' @ start_Method startEvent
         in case SendSASVerificationCancel X fromUser (start_FromDevice startEvent)
                   (start_TransactionID startEvent) reason VerificationCancelUnknownMethod mach of
              (mach', Some err) \<Rightarrow> (mach', Some err)
            | (mach', None) \<Rightarrow> (mach', Some ErrUnknownVerificationMethod))
      else
        (case CanonicalJSON X startEvent of
           Inl err \<Rightarrow> (mach, Some err)
         | Inr canonical \<Rightarrow>
            (let hash = Sha256 X (publicKey @ canonical);
                 sasMethods = map Type methods;
                 c = \<lparr>accept_TransactionID = start_TransactionID startEvent,
                      accept_Method = VerificationMethodSAS X,
                      accept_KeyAgreementProtocol = KeyAgreementCurve25519HKDFSHA256 X,
                      accept_Hash = VerificationHashSHA256 X,
                      accept_MessageAuthenticationCode = HKDFHMACSHA256 X,
                      accept_ShortAuthenticationString = sasMethods,
                      accept_Commitment = hash\<rparr>
             in sendToOneDevice X fromUser (start_FromDevice startEvent)
                  (ToDeviceVerificationAccept c) mach)))"

text \<open>The hook runs in its own goroutine; the call is recorded when it is started.\<close>

definition callbackAndCancelSASVerification ::
  "'sas Collaborators \<Rightarrow> nat \<Rightarrow> string \<Rightarrow> string \<Rightarrow> VerificationCancelCode \<Rightarrow>
   'sas OlmMachine \<Rightarrow> 'sas OlmMachine \<times> error option" where
  "callbackAndCancelSASVerification X verState transactionID reason code mach =
     (let vs = verStates mach verState;
          mach1 = mach\<lparr>hookCalls := hookCalls mach @ [OnCancel (hooksID (hooks vs)) True reason code]\<rparr>
      in SendSASVerificationCancel X (UserID (otherDevice vs)) (DeviceID (otherDevice vs))
           transactionID reason code mach1)"

definition SendSASVerificationKey ::
  "'sas Collaborators \<Rightarrow> UserID \<Rightarrow> DeviceID \<Rightarrow> string \<Rightarrow> string \<Rightarrow>
   'sas OlmMachine \<Rightarrow> 'sas OlmMachine \<times> error option" where
  "SendSASVerificationKey X userID deviceID transactionID k mach =
     sendToOneDevice X userID deviceID
       (ToDeviceVerificationKey \<lparr>key_TransactionID = transactionID, key_Key = k\<rparr>) mach"

definition SendSASVerificationMAC ::
  "'sas Collaborators \<Rightarrow> UserID \<Rightarrow> DeviceID \<Rightarrow> string \<Rightarrow> 'sas \<Rightarrow>
   'sas OlmMachine \<Rightarrow> 'sas OlmMachine \<times> error option" where
  "SendSASVerificationMAC X userID deviceID transactionID s mach =
     (let keyID = NewKeyID X (KeyAlgorithmEd25519 X) (Client_DeviceID mach);
          signingKey = account_SigningKey mach
      in case getPKAndKeysMAC X s (Client_UserID mach) (Client_DeviceID mach) userID deviceID
                transactionID signingKey keyID None of
           Inl err \<Rightarrow> (mach, Some err)
         | Inr (pubKeyMac, keysMac) \<Rightarrow>
             sendToOneDevice X userID deviceID
               (ToDeviceVerificationMAC
                  \<lparr>mac_TransactionID = transactionID, mac_Keys = keysMac,
                   mac_Mac = Some [(keyID, pubKeyMac)]\<rparr>) mach)"

subsection \<open>Transaction lookup and timers\<close>

definition getTransactionState ::
  "'sas Collaborators \<Rightarrow> string \<Rightarrow> UserID \<Rightarrow> 'sas OlmMachine \<Rightarrow> 'sas OlmMachine \<times> (error + nat)" where
  "getTransactionState X transactionID userID mach =
     (case keyVerificationTransactionState mach (mapKey userID transactionID) of
        None \<Rightarrow>
          (fst (SendSASVerificationCancel X userID ''*'' transactionID
                  (''Unknown transaction: '' @ transactionID)
                  VerificationCancelUnknownTransaction mach),
           Inl ErrUnknownTransaction)
      | Some verState \<Rightarrow>
          (if UserID (otherDevice (verStates mach verState)) \<noteq> userID then
             (let reason = ''Unknown user for transaction '' @ transactionID @ '': '' @ userID;
                  mach1 = fst (SendSASVerificationCancel X userID ''*'' transactionID reason
                                 VerificationCancelUserMismatch mach)
              in (Delete (mapKey userID transactionID) mach1, Inl (ErrorString reason)))
           else (mach, Inr verState)))"

text \<open>
  The call \<open>verState.extendTimeout()\<close>: cancelling a running context wakes the timer
  loop, cancelling a finished one changes nothing, calling a nil function panics
  (\<open>None\<close>).
\<close>

definition callExtendTimeout :: "nat \<Rightarrow> 'sas OlmMachine \<Rightarrow> 'sas OlmMachine option" where
  "callExtendTimeout verState mach =
     (case extendTimeout (verStates mach verState) of
        None \<Rightarrow> None
      | Some ctx \<Rightarrow>
          Some (updVerState verState
                 (\<lambda>vs. vs\<lparr>extendTimeout := Some (if ctx = CtxRunning then CtxCanceled else ctx)\<rparr>) mach))"

definition timeoutAfter :: "nat \<Rightarrow> string \<Rightarrow> 'sas OlmMachine \<Rightarrow> 'sas OlmMachine" where
  "timeoutAfter verState transactionID mach =
     (let mach1 = updVerState verState (\<lambda>vs. vs\<lparr>extendTimeout := Some CtxRunning\<rparr>) mach
      in mach1\<lparr>goroutines := goroutines mach1 @ [GoTimeout verState transactionID]\<rparr>)"



subsection \<open>Starting a verification\<close>

definition NewSASVerificationWith ::
  "'sas Collaborators \<Rightarrow> DeviceIdentity \<Rightarrow> VerificationHooks \<Rightarrow> string \<Rightarrow>
   'sas OlmMachine \<Rightarrow> 'sas OlmMachine \<times> (error + string)" where
  "NewSASVerificationWith X device hks transactionID0 mach0 =
     (let (transactionID, mach) =
            (if transactionID0 = [] then
               (Itoa (randInt X (draws mach0)), mach0\<lparr>draws := Suc (draws mach0)\<rparr>)
             else (transactionID0, mach0));
          verState = \<lparr>sas = NewSAS X (draws mach),
                      otherDevice = device,
                      initiatedByUs = True,
                      verificationStarted = False,
                      keyReceived = False,
                      sasMatched = None,
                      commitment = [],
                      startEventCanonical = [],
                      chosenSASMethod = None,
                      hooks = hks,
                      extendTimeout = None\<rparr>;
          mach1 = mach\<lparr>draws := Suc (draws mach)\<rparr>
      in case SendSASVerificationStart X (UserID device) (DeviceID device) transactionID
                (VerificationMethods hks) mach1 of
           (mach2, startEvent, Some err) \<Rightarrow> (mach2, Inl err)
         | (mach2, startEvent, None) \<Rightarrow>
            (case CanonicalJSON X startEvent of
               Inl err \<Rightarrow> (mach2, Inl err)
             | Inr canonical \<Rightarrow>
                (case keyVerificationTransactionState mach2 (mapKey (UserID device) transactionID) of
                   Some loaded \<Rightarrow> (mach2, Inl (ErrorString ''Transaction already exists''))
                 | None \<Rightarrow>
                    (case Store (mapKey (UserID device) transactionID)
                            (verState\<lparr>startEventCanonical := canonical\<rparr>) mach2 of
                       (mach3, a) \<Rightarrow> (timeoutAfter a transactionID mach3, Inr transactionID)))))"

definition actuallyStartVerification ::
  "'sas Collaborators \<Rightarrow> UserID \<Rightarrow> VerificationStartEventContent \<Rightarrow> DeviceIdentity \<Rightarrow>
   'sas OlmMachine \<Rightarrow> 'sas OlmMachine" where
  "actuallyStartVerification X userID c otherDev mach =
     (case AcceptVerificationFrom X (start_TransactionID c) otherDev of
        (resp, hks) \<Rightarrow>
          if resp = AcceptRequest then
            (let sasMethods = commonSASMethods hks (start_ShortAuthenticationString c)
             in if length sasMethods = 0 then
                  fst (SendSASVerificationCancel X (UserID otherDev) (DeviceID otherDev)
                         (start_TransactionID c) ''No common SAS methods''
                         VerificationCancelUnknownMethod mach)
                else
                  (let verState = \<lparr>sas = NewSAS X (draws mach),
                                    otherDevice = otherDev,
                                    initiatedByUs = False,
                                    verificationStarted = True,
                                    keyReceived = False,
                                    sasMatched = None,
                                    commitment = [],
                                    startEventCanonical = [],
                                    chosenSASMethod = Some (hd sasMethods),
                                    hooks = hks,
                                    extendTimeout = None\<rparr>;
                       mach1 = mach\<lparr>draws := Suc (draws mach)\<rparr>
                   in case keyVerificationTransactionState mach1
                             (mapKey userID (start_TransactionID c)) of
                        Some loaded \<Rightarrow>
                          fst (SendSASVerificationCancel X (UserID otherDev) (DeviceID otherDev)
                                 (start_TransactionID c) ''Transaction already exists''
                                 VerificationCancelUnexpectedMessage mach1)
                      | None \<Rightarrow>
                         (case Store (mapKey userID (start_TransactionID c)) verState mach1 of
                            (mach2, a) \<Rightarrow>
                              fst (SendSASVerificationAccept X userID c (GetPubkey X (sas verState))
                                     sasMethods (timeoutAfter a (start_TransactionID c) mach2)))))
          else if resp = RejectRequest then
            fst (SendSASVerificationCancel X (UserID otherDev) (DeviceID otherDev)
                   (start_TransactionID c) ''Not accepted by user'' VerificationCancelByUser mach)
          else mach)"




subsection \<open>Message handlers\<close>

text \<open>
  A handler that calls \<open>extendTimeout\<close> returns \<open>None\<close> when it does not return: the
  nil call panics. Each handler runs under the lock of its transaction, so it is one
  step of the machine.
\<close>

definition handleVerificationAccept ::
  "'sas Collaborators \<Rightarrow> UserID \<Rightarrow> VerificationAcceptEventContent \<Rightarrow> 'sas OlmMachine \<Rightarrow> 'sas OlmMachine option" where
  "handleVerificationAccept X userID c mach =
     (case getTransactionState X (accept_TransactionID c) userID mach of
        (mach1, Inl err) \<Rightarrow> Some mach1
      | (mach1, Inr verState) \<Rightarrow>
         (case callExtendTimeout verState mach1 of
            None \<Rightarrow> None
          | Some mach2 \<Rightarrow>
             (let vs = verStates mach2 verState
              in if \<not> initiatedByUs vs \<or> verificationStarted vs then
                   Some (fst (callbackAndCancelSASVerification X verState (accept_TransactionID c)
                                ''Unexpected accept message'' VerificationCancelUnexpectedMessage
                                (Delete (mapKey userID (accept_TransactionID c)) mach2)))
                 else
                   (let sasMethods = commonSASMethods (hooks vs) (accept_ShortAuthenticationString c)
                    in if accept_KeyAgreementProtocol c \<noteq> KeyAgreementCurve25519HKDFSHA256 X \<or>
                          accept_Hash c \<noteq> VerificationHashSHA256 X \<or>
                          accept_MessageAuthenticationCode c \<noteq> HKDFHMACSHA256 X \<or>
                          length sasMethods = 0 then
                         Some (fst (callbackAndCancelSASVerification X verState (accept_TransactionID c)
                                      ''Verification uses unknown method'' VerificationCancelUnknownMethod
                                      (Delete (mapKey userID (accept_TransactionID c)) mach2)))
                       else
                         (let k = GetPubkey X (sas vs);
                              mach3 = updVerState verState
                                        (\<lambda>v. v\<lparr>commitment := accept_Commitment c,
                                                chosenSASMethod := Some (hd sasMethods),
                                                verificationStarted := True\<rparr>) mach2
                          in Some (fst (SendSASVerificationKey X userID (DeviceID (otherDevice vs))
                                          (accept_TransactionID c) k mach3)))))))"

text \<open>
  The last part of \<open>handleVerificationKey\<close>: the SAS is generated with the initiator's
  fields first and its comparison is handed to a goroutine. A nil SAS method panics.
\<close>

definition handleVerificationKey_compare ::
  "'sas Collaborators \<Rightarrow> nat \<Rightarrow> VerificationKeyEventContent \<Rightarrow> 'sas OlmMachine \<Rightarrow> 'sas OlmMachine option" where
  "handleVerificationKey_compare X verState c mach =
     (let vs = verStates mach verState;
          device = otherDevice vs;
          transactionID = key_TransactionID c;
          (initUserID, initDeviceID, initKey, acceptUserID, acceptDeviceID, acceptKey) =
            (if initiatedByUs vs then
               (Client_UserID mach, Client_DeviceID mach, GetPubkey X (sas vs),
                UserID device, DeviceID device, key_Key c)
             else
               (UserID device, DeviceID device, key_Key c,
                Client_UserID mach, Client_DeviceID mach, GetPubkey X (sas vs)))
      in case chosenSASMethod vs of
           None \<Rightarrow> None
         | Some sasMethod \<Rightarrow>
            (case GetVerificationSAS X sasMethod initUserID initDeviceID initKey
                    acceptUserID acceptDeviceID acceptKey transactionID (sas vs) of
               Inl err \<Rightarrow> Some mach
             | Inr sasData \<Rightarrow>
                 Some (mach\<lparr>goroutines := goroutines mach @
                              [GoVerifySASMatch verState device sasData transactionID]\<rparr>)))"

definition handleVerificationKey ::
  "'sas Collaborators \<Rightarrow> UserID \<Rightarrow> VerificationKeyEventContent \<Rightarrow> 'sas OlmMachine \<Rightarrow> 'sas OlmMachine option" where
  "handleVerificationKey X userID c mach =
     (let transactionID = key_TransactionID c
      in case getTransactionState X transactionID userID mach of
        (mach1, Inl err) \<Rightarrow> Some mach1
      | (mach1, Inr verState) \<Rightarrow>
         (case callExtendTimeout verState mach1 of
            None \<Rightarrow> None
          | Some mach2 \<Rightarrow>
             (let vs = verStates mach2 verState;
                  device = otherDevice vs
              in if \<not> verificationStarted vs \<or> keyReceived vs then
                   Some (fst (callbackAndCancelSASVerification X verState (key_TransactionID c)
                                ''Unexpected key message'' VerificationCancelUnexpectedMessage
                                (Delete (mapKey userID (key_TransactionID c)) mach2)))
                 else
                   (case SetTheirKey X (sas vs) (key_Key c) of
                      Inl err \<Rightarrow> Some mach2
                    | Inr sas' \<Rightarrow>
                       (let mach3 = updVerState verState
                                      (\<lambda>v. v\<lparr>sas := sas', keyReceived := True\<rparr>) mach2
                        in if initiatedByUs vs then
                             (let expectedCommitment = Sha256 X (key_Key c @ startEventCanonical vs)
                              in if expectedCommitment \<noteq> commitment vs then
                                   Some (fst (callbackAndCancelSASVerification X verState transactionID
                                                ''Commitment mismatch''
                                                VerificationCancelCommitmentMismatch
                                                (Delete (mapKey userID transactionID) mach3)))
                                 else handleVerificationKey_compare X verState c mach3)
                           else
                             (case SendSASVerificationKey X userID (DeviceID device) transactionID
                                     (GetPubkey X sas') mach3 of
                                (mach4, Some err) \<Rightarrow> Some mach4
                              | (mach4, None) \<Rightarrow> handleVerificationKey_compare X verState c mach4))))))"


definition handleVerificationMAC ::
  "'sas Collaborators \<Rightarrow> UserID \<Rightarrow> VerificationMacEventContent \<Rightarrow> 'sas OlmMachine \<Rightarrow> 'sas OlmMachine option" where
  "handleVerificationMAC X userID c mach =
     (case getTransactionState X (mac_TransactionID c) userID mach of
        (mach1, Inl err) \<Rightarrow> Some mach1
      | (mach1, Inr verState) \<Rightarrow>
         (case callExtendTimeout verState mach1 of
            None \<Rightarrow> None
          | Some mach2 \<Rightarrow>
             (let vs = verStates mach2 verState;
                  mach3 = Delete (mapKey userID (mac_TransactionID c)) mach2
              in if \<not> verificationStarted vs \<or> \<not> keyReceived vs then
                   Some (fst (callbackAndCancelSASVerification X verState (mac_TransactionID c)
                                ''Unexpected MAC message'' VerificationCancelUnexpectedMessage mach3))
                 else
                   Some (mach3\<lparr>goroutines := goroutines mach3 @ [GoVerifyMAC verState c]\<rparr>))))"



definition handleVerificationCancel ::
  "'sas Collaborators \<Rightarrow> UserID \<Rightarrow> VerificationCancelEventContent \<Rightarrow> 'sas OlmMachine \<Rightarrow> 'sas OlmMachine" where
  "handleVerificationCancel X userID c mach =
     (let mach1 =
            (case keyVerificationTransactionState mach (mapKey userID (cancel_TransactionID c)) of
               Some verState \<Rightarrow>
                 mach\<lparr>hookCalls := hookCalls mach @
                        [OnCancel (hooksID (hooks (verStates mach verState))) False
                           (cancel_Reason c) (cancel_Code c)]\<rparr>
             | None \<Rightarrow> mach)
      in Delete (mapKey userID (cancel_TransactionID c)) mach1)"

subsection \<open>Steps of the machine\<close>




text \<open>The calls of \<open>OnSuccess\<close> among the hook calls, and the Cancel messages.\<close>

fun isOnSuccess :: "HookCall \<Rightarrow> bool" where
  "isOnSuccess (OnSuccess h) = True"
| "isOnSuccess (OnCancel h byUs reason code) = False"

definition successCalls :: "'sas OlmMachine \<Rightarrow> HookCall list" where
  "successCalls mach = filter isOnSuccess (hookCalls mach)"

fun isCancel :: "Content \<Rightarrow> bool" where
  "isCancel (ToDeviceVerificationCancel c) = True"
| "isCancel other = False"

subsection \<open>A concrete machine\<close>

text \<open>
  Concrete collaborators and a small machine on which the theorems are instantiated. The
  SAS object is the pair of our public key and the peer's key.
\<close>

definition demoHooks :: VerificationHooks where
  "demoHooks = \<lparr>hooksID = 7, VerificationMethods = [\<lparr>Type = ''emoji''\<rparr>, \<lparr>Type = ''decimal''\<rparr>]\<rparr>"

definition demoDevice :: DeviceIdentity where
  "demoDevice = \<lparr>UserID = ''@bob:ex'', DeviceID = ''BOBDEV'', IdentityKey = ''bobid'',
                  SigningKey = ''bobsign'', Trust = TrustStateUnset, Deleted = False,
                  Name = ''phone''\<rparr>"

definition demoX :: "(string \<times> string) Collaborators" where
  "demoX = \<lparr>Sha256 = (\<lambda>s. ''sha256:'' @ s),
            CalculateMAC = (\<lambda>s input info. Inr (''mac:'' @ input @ '':'' @ info)),
            SetTheirKey = (\<lambda>s k. if k = [] then Inl (ExternalError ''empty key'') else Inr (fst s, k)),
            GetPubkey = fst,
            NewSAS = (\<lambda>n. (''pub'', [])),
            randInt = (\<lambda>n. 4000 + n),
            CanonicalJSON = (\<lambda>c. Inr (''{'' @ start_TransactionID c @ ''}'')),
            GetVerificationSAS = (\<lambda>m iu idev ik au adev ak t s. Inr (Type m @ '':'' @ ik @ ak)),
            GetOrFetchDevice = (\<lambda>u d. Inr (demoDevice\<lparr>UserID := u, DeviceID := d\<rparr>)),
            AcceptVerificationFrom = (\<lambda>t d. (AcceptRequest, demoHooks)),
            SendToDevice = (\<lambda>m. None),
            NewKeyID = (\<lambda>algorithm k. algorithm @ '':'' @ k),
            KeyAlgorithmEd25519 = ''ed25519'',
            VerificationMethodSAS = ''m.sas.v1'',
            KeyAgreementCurve25519HKDFSHA256 = ''curve25519-hkdf-sha256'',
            VerificationHashSHA256 = ''sha256'',
            HKDFHMACSHA256 = ''hkdf-hmac-sha256'',
            SASDecimal = ''decimal''\<rparr>"

definition demoState :: "(string \<times> string) verificationState" where
  "demoState = \<lparr>sas = (''pub'', []),
                otherDevice = demoDevice,
                initiatedByUs = True,
                verificationStarted = False,
                keyReceived = False,
                sasMatched = None,
                commitment = [],
                startEventCanonical = ''{T1}'',
                chosenSASMethod = None,
                hooks = demoHooks,
                extendTimeout = Some CtxRunning\<rparr>"

definition demoMach :: "(string \<times> string) OlmMachine" where
  "demoMach = \<lparr>Client_UserID = ''@alice:ex'',
               Client_DeviceID = ''ALICEDEV'',
               account_SigningKey = ''alicesign'',
               keyVerificationTransactionState = Map.empty,
               verStates = (\<lambda>a. demoState),
               allocated = 0,
               draws = 0,
               sent = [],
               hookCalls = [],
               putDeviceCalls = [],
               goroutines = []\<rparr>"

text \<open>The machine with one transaction \<open>T1\<close> with Bob, in the given state.\<close>

definition demoWith :: "(string \<times> string) verificationState \<Rightarrow> (string \<times> string) OlmMachine" where
  "demoWith vs = demoMach\<lparr>keyVerificationTransactionState := [''@bob:ex:T1'' \<mapsto> 0],
                          verStates := (\<lambda>a. vs),
                          allocated := 1\<rparr>"

section \<open>Properties\<close>

lemma sort_distinct_set_eq:
  fixes xs ys :: "('a::linorder) list"
  assumes "distinct xs" "distinct ys" "set xs = set ys"
  shows "sort xs = sort ys \<and> sort xs = sorted_list_of_set (set xs)"
proof -
  have x: "sort xs = sorted_list_of_set (set xs)"
    using assms(1) by (simp add: sorted_list_of_set_sort_remdups distinct_remdups_id)
  have y: "sort ys = sorted_list_of_set (set ys)"
    using assms(2) by (simp add: sorted_list_of_set_sort_remdups distinct_remdups_id)
  show ?thesis
    using x y assms(3) by simp
qed

text \<open>
  C1. For every MAC primitive, sending user Us, sending device Ds, receiving user Ur,
  receiving device Dr and transaction id T, the two MAC computations of
  \<open>getPKAndKeysMAC\<close> receive as \<open>info\<close> exactly the label
  \<open>MATRIX_KEY_VERIFICATION_MAC\<close> followed by Us, Ds, Ur, Dr, T with nothing in between,
  followed by the key id for the per-key MAC and by \<open>KEY_IDS\<close> for the key-id-list MAC:
  a primitive that echoes its \<open>info\<close> returns exactly these two byte strings, and with
  any primitive the result is the result of the two calls at these \<open>info\<close> strings.
\<close>

theorem getPKAndKeysMAC_info:
  "getPKAndKeysMAC (echoInfo X) s Us Ds Ur Dr T signingKey mainKeyID keys =
     Inr (concat [''MATRIX_KEY_VERIFICATION_MAC'', Us, Ds, Ur, Dr, T, mainKeyID],
          concat [''MATRIX_KEY_VERIFICATION_MAC'', Us, Ds, Ur, Dr, T, ''KEY_IDS''])
   \<and> getPKAndKeysMAC X s Us Ds Ur Dr T signingKey mainKeyID keys =
     (case CalculateMAC X s signingKey
             (concat [''MATRIX_KEY_VERIFICATION_MAC'', Us, Ds, Ur, Dr, T, mainKeyID]) of
        Inl err \<Rightarrow> Inl err
      | Inr pubKeyMac \<Rightarrow>
         (case CalculateMAC X s
                 (case keys of None \<Rightarrow> mainKeyID | Some kvs \<Rightarrow> Join (sort (map fst kvs)) '','')
                 (concat [''MATRIX_KEY_VERIFICATION_MAC'', Us, Ds, Ur, Dr, T, ''KEY_IDS'']) of
            Inl err \<Rightarrow> Inl err
          | Inr keysMac \<Rightarrow> Inr (pubKeyMac, keysMac)))"
  by (simp add: getPKAndKeysMAC_def echoInfo_def Let_def cong: sum.case_cong)

text \<open>
  C10. The result of \<open>getPKAndKeysMAC\<close> depends only on the set of key ids of the
  supplied map: two iteration orders (and any values) of maps with the same key ids give
  the same result, and the MACed key-id list is the ascending list of that set joined
  with a comma.
\<close>

theorem getPKAndKeysMAC_key_order:
  assumes "distinct (map fst kvs1)" and "distinct (map fst kvs2)"
    and "set (map fst kvs1) = set (map fst kvs2)"
  shows "getPKAndKeysMAC X s Us Ds Ur Dr T signingKey mainKeyID (Some kvs1) =
         getPKAndKeysMAC X s Us Ds Ur Dr T signingKey mainKeyID (Some kvs2)
       \<and> getPKAndKeysMAC X s Us Ds Ur Dr T signingKey mainKeyID (Some kvs1) =
         (case CalculateMAC X s signingKey
                 (''MATRIX_KEY_VERIFICATION_MAC'' @ Us @ Ds @ Ur @ Dr @ T @ mainKeyID) of
            Inl err \<Rightarrow> Inl err
          | Inr pubKeyMac \<Rightarrow>
             (case CalculateMAC X s
                     (Join (sorted_list_of_set (fst ` set kvs1)) '','')
                     (''MATRIX_KEY_VERIFICATION_MAC'' @ Us @ Ds @ Ur @ Dr @ T @ ''KEY_IDS'') of
                Inl err \<Rightarrow> Inl err
              | Inr keysMac \<Rightarrow> Inr (pubKeyMac, keysMac)))"
proof -
  note sl = sort_distinct_set_eq [OF assms]
  from sl have s2: "sort (map fst kvs2) = sort (map fst kvs1)"
    by (elim conjE) (erule sym)
  from sl have "sorted_list_of_set (set (map fst kvs1)) = sort (map fst kvs1)"
    by (elim conjE) (erule sym)
  then have l: "sorted_list_of_set (fst ` set kvs1) = sort (map fst kvs1)"
    by (simp only: set_map)
  show ?thesis
    by (simp add: getPKAndKeysMAC_def Let_def s2 l cong: sum.case_cong)
qed

subsection \<open>Lookup and timer facts\<close>

lemma getTransactionState_unknown:
  "keyVerificationTransactionState mach (mapKey userID T) = None \<Longrightarrow>
   getTransactionState X T userID mach =
     (mach\<lparr>sent := sent mach @
        [\<lparr>toUser = userID, toDevice = ''*'',
          content = ToDeviceVerificationCancel
            \<lparr>cancel_TransactionID = T, cancel_Reason = ''Unknown transaction: '' @ T,
             cancel_Code = VerificationCancelUnknownTransaction\<rparr>\<rparr>]\<rparr>,
      Inl ErrUnknownTransaction)"
  by (simp add: getTransactionState_def SendSASVerificationCancel_def sendToOneDevice_def Let_def)

lemma getTransactionState_found:
  "keyVerificationTransactionState mach (mapKey userID T) = Some a \<Longrightarrow>
   UserID (otherDevice (verStates mach a)) = userID \<Longrightarrow>
   getTransactionState X T userID mach = (mach, Inr a)"
  by (simp add: getTransactionState_def)

lemma callExtendTimeout_armed:
  "extendTimeout (verStates mach a) = Some ctx \<Longrightarrow>
   callExtendTimeout a mach =
     Some (updVerState a
            (\<lambda>vs. vs\<lparr>extendTimeout := Some (if ctx = CtxRunning then CtxCanceled else ctx)\<rparr>) mach)"
  by (simp add: callExtendTimeout_def)

subsection \<open>Unknown transactions\<close>

text \<open>
  C4. When no transaction is stored under the key of the sender's user id and the
  transaction id, the handlers of Accept, Key and Mac messages return the machine
  unchanged but for exactly one more sent message: a Cancel to the sender's user and the
  device \<open>*\<close> with the unknown-transaction code. The store, the states, the hook calls,
  the trust writes and the goroutines are the ones of before.
\<close>

theorem unknown_transaction_cancel:
  assumes "keyVerificationTransactionState mach (mapKey userID T) = None"
  shows "handleVerificationAccept X userID (a\<lparr>accept_TransactionID := T\<rparr>) mach =
           Some (mach\<lparr>sent := sent mach @
             [\<lparr>toUser = userID, toDevice = ''*'',
               content = ToDeviceVerificationCancel
                 \<lparr>cancel_TransactionID = T, cancel_Reason = ''Unknown transaction: '' @ T,
                  cancel_Code = VerificationCancelUnknownTransaction\<rparr>\<rparr>]\<rparr>)
       \<and> handleVerificationKey X userID (k\<lparr>key_TransactionID := T\<rparr>) mach =
           Some (mach\<lparr>sent := sent mach @
             [\<lparr>toUser = userID, toDevice = ''*'',
               content = ToDeviceVerificationCancel
                 \<lparr>cancel_TransactionID = T, cancel_Reason = ''Unknown transaction: '' @ T,
                  cancel_Code = VerificationCancelUnknownTransaction\<rparr>\<rparr>]\<rparr>)
       \<and> handleVerificationMAC X userID (m\<lparr>mac_TransactionID := T\<rparr>) mach =
           Some (mach\<lparr>sent := sent mach @
             [\<lparr>toUser = userID, toDevice = ''*'',
               content = ToDeviceVerificationCancel
                 \<lparr>cancel_TransactionID = T, cancel_Reason = ''Unknown transaction: '' @ T,
                  cancel_Code = VerificationCancelUnknownTransaction\<rparr>\<rparr>]\<rparr>)"
  using assms
  by (simp add: handleVerificationAccept_def handleVerificationKey_def handleVerificationMAC_def
      getTransactionState_unknown)

theorem unknown_transaction_cancel_witness:
  "keyVerificationTransactionState (demoWith demoState) (mapKey ''@carol:ex'' ''T9'') = None
   \<and> sent (the (handleVerificationKey demoX ''@carol:ex''
              \<lparr>key_TransactionID = ''T9'', key_Key = ''k''\<rparr> (demoWith demoState))) =
      [\<lparr>toUser = ''@carol:ex'', toDevice = ''*'',
        content = ToDeviceVerificationCancel
          \<lparr>cancel_TransactionID = ''T9'', cancel_Reason = ''Unknown transaction: T9'',
           cancel_Code = VerificationCancelUnknownTransaction\<rparr>\<rparr>]
   \<and> keyVerificationTransactionState (the (handleVerificationKey demoX ''@carol:ex''
              \<lparr>key_TransactionID = ''T9'', key_Key = ''k''\<rparr> (demoWith demoState))) =
       keyVerificationTransactionState (demoWith demoState)"
proof -
  have h: "keyVerificationTransactionState (demoWith demoState) (mapKey ''@carol:ex'' ''T9'') = None"
    by (simp add: demoWith_def mapKey_def)
  show ?thesis
    using h unknown_transaction_cancel [OF h, of demoX undefined
        "\<lparr>key_TransactionID = ''T9'', key_Key = ''k''\<rparr>" undefined]
    by (simp add: demoWith_def demoMach_def)
qed

subsection \<open>Cancellation\<close>

lemma callbackAndCancel_eq:
  "fst (callbackAndCancelSASVerification X a T reason code mach) =
     mach\<lparr>hookCalls := hookCalls mach @ [OnCancel (hooksID (hooks (verStates mach a))) True reason code],
          sent := sent mach @
            [\<lparr>toUser = UserID (otherDevice (verStates mach a)),
              toDevice = DeviceID (otherDevice (verStates mach a)),
              content = ToDeviceVerificationCancel
                \<lparr>cancel_TransactionID = T, cancel_Reason = reason, cancel_Code = code\<rparr>\<rparr>]\<rparr>"
  by (simp add: callbackAndCancelSASVerification_def SendSASVerificationCancel_def
      sendToOneDevice_def Let_def)

text \<open>
  C9. Handling an inbound Cancel sends nothing: the list of sent messages is the one of
  before. It deletes the entry under the key of the sender's user id and the transaction
  id, whatever peer user id the stored state records, and when an entry existed it calls
  \<open>OnCancel\<close> of that state's hooks with \<open>cancelledByUs = false\<close> and the received
  reason and code (and calls nothing otherwise).
\<close>

theorem inbound_cancel_silent:
  "sent (handleVerificationCancel X userID c mach) = sent mach
   \<and> keyVerificationTransactionState (handleVerificationCancel X userID c mach) =
       (keyVerificationTransactionState mach)(mapKey userID (cancel_TransactionID c) := None)
   \<and> hookCalls (handleVerificationCancel X userID c mach) =
       hookCalls mach @
         (case keyVerificationTransactionState mach (mapKey userID (cancel_TransactionID c)) of
            None \<Rightarrow> []
          | Some verState \<Rightarrow>
              [OnCancel (hooksID (hooks (verStates mach verState))) False
                 (cancel_Reason c) (cancel_Code c)])
   \<and> putDeviceCalls (handleVerificationCancel X userID c mach) = putDeviceCalls mach
   \<and> goroutines (handleVerificationCancel X userID c mach) = goroutines mach
   \<and> verStates (handleVerificationCancel X userID c mach) = verStates mach"
  by (simp add: handleVerificationCancel_def Delete_def Let_def split: option.split)

theorem inbound_cancel_silent_witness:
  "UserID (otherDevice (verStates (demoWith demoState) 0)) \<noteq> ''@bob''
   \<and> keyVerificationTransactionState (demoWith demoState) (mapKey ''@bob'' ''ex:T1'') = Some 0
   \<and> keyVerificationTransactionState
        (handleVerificationCancel demoX ''@bob''
           \<lparr>cancel_TransactionID = ''ex:T1'', cancel_Reason = ''bye'',
            cancel_Code = VerificationCancelByUser\<rparr> (demoWith demoState)) (mapKey ''@bob'' ''ex:T1'') = None
   \<and> sent (handleVerificationCancel demoX ''@bob''
           \<lparr>cancel_TransactionID = ''ex:T1'', cancel_Reason = ''bye'',
            cancel_Code = VerificationCancelByUser\<rparr> (demoWith demoState)) = []
   \<and> hookCalls (handleVerificationCancel demoX ''@bob''
           \<lparr>cancel_TransactionID = ''ex:T1'', cancel_Reason = ''bye'',
            cancel_Code = VerificationCancelByUser\<rparr> (demoWith demoState)) =
       [OnCancel 7 False ''bye'' VerificationCancelByUser]"
  using inbound_cancel_silent [of demoX "''@bob''"
      "\<lparr>cancel_TransactionID = ''ex:T1'', cancel_Reason = ''bye'', cancel_Code = VerificationCancelByUser\<rparr>"
      "demoWith demoState"]
  by (simp add: demoWith_def demoMach_def demoState_def demoDevice_def demoHooks_def mapKey_def)



subsection \<open>Method negotiation\<close>

lemma otherDeviceHas_iff: "otherDeviceHas t others = (t \<in> set others)"
  by (induction others) auto

lemma commonSASMethods_loop_filter:
  "commonSASMethods_loop hs others acc = acc @ filter (\<lambda>m. Type m \<in> set others) hs"
  by (induction hs arbitrary: acc) (simp_all add: otherDeviceHas_iff)

lemma commonSASMethods_filter:
  "commonSASMethods hks others = filter (\<lambda>m. Type m \<in> set others) (VerificationMethods hks)"
  by (simp add: commonSASMethods_def commonSASMethods_loop_filter)

lemma accept_negotiated:
  assumes "keyVerificationTransactionState mach (mapKey userID (accept_TransactionID c)) = Some a"
    and "UserID (otherDevice (verStates mach a)) = userID"
    and "extendTimeout (verStates mach a) = Some ctx"
    and "initiatedByUs (verStates mach a)" and "\<not> verificationStarted (verStates mach a)"
    and "accept_KeyAgreementProtocol c = KeyAgreementCurve25519HKDFSHA256 X"
    and "accept_Hash c = VerificationHashSHA256 X"
    and "accept_MessageAuthenticationCode c = HKDFHMACSHA256 X"
    and "commonSASMethods (hooks (verStates mach a)) (accept_ShortAuthenticationString c) \<noteq> []"
  shows "\<exists>mach'. handleVerificationAccept X userID c mach = Some mach'
           \<and> chosenSASMethod (verStates mach' a) =
               Some (hd (commonSASMethods (hooks (verStates mach a)) (accept_ShortAuthenticationString c)))
           \<and> commitment (verStates mach' a) = accept_Commitment c
           \<and> verificationStarted (verStates mach' a)
           \<and> keyVerificationTransactionState mach' = keyVerificationTransactionState mach
           \<and> hookCalls mach' = hookCalls mach
           \<and> sent mach' = sent mach @
               [\<lparr>toUser = userID, toDevice = DeviceID (otherDevice (verStates mach a)),
                 content = ToDeviceVerificationKey
                   \<lparr>key_TransactionID = accept_TransactionID c,
                    key_Key = GetPubkey X (sas (verStates mach a))\<rparr>\<rparr>]"
  using assms
  by (simp add: handleVerificationAccept_def getTransactionState_found callExtendTimeout_armed
      Let_def updVerState_def SendSASVerificationKey_def sendToOneDevice_def)

lemma accept_no_common_method:
  assumes "keyVerificationTransactionState mach (mapKey userID (accept_TransactionID c)) = Some a"
    and "UserID (otherDevice (verStates mach a)) = userID"
    and "extendTimeout (verStates mach a) = Some ctx"
    and "initiatedByUs (verStates mach a)" and "\<not> verificationStarted (verStates mach a)"
    and "commonSASMethods (hooks (verStates mach a)) (accept_ShortAuthenticationString c) = []"
  shows "\<exists>mach'. handleVerificationAccept X userID c mach = Some mach'
           \<and> keyVerificationTransactionState mach' =
               (keyVerificationTransactionState mach)(mapKey userID (accept_TransactionID c) := None)
           \<and> hookCalls mach' = hookCalls mach @
               [OnCancel (hooksID (hooks (verStates mach a))) True
                  ''Verification uses unknown method'' VerificationCancelUnknownMethod]
           \<and> sent mach' = sent mach @
               [\<lparr>toUser = userID, toDevice = DeviceID (otherDevice (verStates mach a)),
                 content = ToDeviceVerificationCancel
                   \<lparr>cancel_TransactionID = accept_TransactionID c,
                    cancel_Reason = ''Verification uses unknown method'',
                    cancel_Code = VerificationCancelUnknownMethod\<rparr>\<rparr>]"
  using assms
  by (simp add: handleVerificationAccept_def getTransactionState_found callExtendTimeout_armed
      Let_def updVerState_def Delete_def callbackAndCancel_eq)

lemma start_no_common_method:
  assumes "AcceptVerificationFrom X (start_TransactionID sc) dev = (AcceptRequest, hks)"
    and "commonSASMethods hks (start_ShortAuthenticationString sc) = []"
  shows "actuallyStartVerification X userID sc dev mach =
           mach\<lparr>sent := sent mach @
             [\<lparr>toUser = UserID dev, toDevice = DeviceID dev,
               content = ToDeviceVerificationCancel
                 \<lparr>cancel_TransactionID = start_TransactionID sc,
                  cancel_Reason = ''No common SAS methods'',
                  cancel_Code = VerificationCancelUnknownMethod\<rparr>\<rparr>]\<rparr>"
  using assms
  by (simp add: actuallyStartVerification_def SendSASVerificationCancel_def sendToOneDevice_def Let_def)

lemma start_negotiated:
  assumes "AcceptVerificationFrom X (start_TransactionID sc) dev = (AcceptRequest, hks)"
    and "commonSASMethods hks (start_ShortAuthenticationString sc) \<noteq> []"
    and "keyVerificationTransactionState mach (mapKey userID (start_TransactionID sc)) = None"
  shows "keyVerificationTransactionState (actuallyStartVerification X userID sc dev mach)
            (mapKey userID (start_TransactionID sc)) = Some (allocated mach)
       \<and> chosenSASMethod (verStates (actuallyStartVerification X userID sc dev mach) (allocated mach)) =
            Some (hd (commonSASMethods hks (start_ShortAuthenticationString sc)))"
  using assms
  by (simp add: actuallyStartVerification_def Let_def Store_def timeoutAfter_def updVerState_def
      SendSASVerificationAccept_def SendSASVerificationCancel_def sendToOneDevice_def
      split: sum.split prod.split option.split)

text \<open>
  C8. \<open>commonSASMethods\<close> returns the local methods whose type the peer advertises, in
  the local order of preference. For an Accept message that is expected (we initiated,
  verification not started) and whose other parameters are the supported ones, the
  chosen SAS method of the transaction becomes the first of these methods, and when
  there is none the transaction is cancelled with the unknown-method code and removed.
  On the responder's side \<open>actuallyStartVerification\<close> does the same with the methods
  of the Start message: it stores the first common method, and with no common method it
  only sends a Cancel.
\<close>

theorem sas_method_negotiation:
  assumes "keyVerificationTransactionState mach (mapKey userID (accept_TransactionID c)) = Some a"
    and "UserID (otherDevice (verStates mach a)) = userID"
    and "extendTimeout (verStates mach a) = Some ctx"
    and "initiatedByUs (verStates mach a)" and "\<not> verificationStarted (verStates mach a)"
    and "accept_KeyAgreementProtocol c = KeyAgreementCurve25519HKDFSHA256 X"
    and "accept_Hash c = VerificationHashSHA256 X"
    and "accept_MessageAuthenticationCode c = HKDFHMACSHA256 X"
    and "AcceptVerificationFrom X (start_TransactionID sc) dev = (AcceptRequest, hks)"
  shows "(commonSASMethods hks others = filter (\<lambda>m. Type m \<in> set others) (VerificationMethods hks))
     \<and> ((filter (\<lambda>m. Type m \<in> set (accept_ShortAuthenticationString c))
           (VerificationMethods (hooks (verStates mach a))) \<noteq> [])
         \<longrightarrow> (\<exists>mach'. handleVerificationAccept X userID c mach = Some mach'
           \<and> chosenSASMethod (verStates mach' a) =
               Some (hd (filter (\<lambda>m. Type m \<in> set (accept_ShortAuthenticationString c))
                          (VerificationMethods (hooks (verStates mach a)))))
           \<and> keyVerificationTransactionState mach' = keyVerificationTransactionState mach
           \<and> hookCalls mach' = hookCalls mach))
     \<and> ((filter (\<lambda>m. Type m \<in> set (accept_ShortAuthenticationString c))
           (VerificationMethods (hooks (verStates mach a))) = [])
         \<longrightarrow> (\<exists>mach'. handleVerificationAccept X userID c mach = Some mach'
           \<and> keyVerificationTransactionState mach' =
               (keyVerificationTransactionState mach)(mapKey userID (accept_TransactionID c) := None)
           \<and> hookCalls mach' = hookCalls mach @
               [OnCancel (hooksID (hooks (verStates mach a))) True
                  ''Verification uses unknown method'' VerificationCancelUnknownMethod]
           \<and> sent mach' = sent mach @
               [\<lparr>toUser = userID, toDevice = DeviceID (otherDevice (verStates mach a)),
                 content = ToDeviceVerificationCancel
                   \<lparr>cancel_TransactionID = accept_TransactionID c,
                    cancel_Reason = ''Verification uses unknown method'',
                    cancel_Code = VerificationCancelUnknownMethod\<rparr>\<rparr>]))
     \<and> ((filter (\<lambda>m. Type m \<in> set (start_ShortAuthenticationString sc)) (VerificationMethods hks) \<noteq> [])
         \<longrightarrow> ((keyVerificationTransactionState mach2 (mapKey user2 (start_TransactionID sc)) = None)
         \<longrightarrow> (chosenSASMethod (verStates (actuallyStartVerification X user2 sc dev mach2) (allocated mach2)) =
           Some (hd (filter (\<lambda>m. Type m \<in> set (start_ShortAuthenticationString sc))
                      (VerificationMethods hks)))
         \<and> keyVerificationTransactionState (actuallyStartVerification X user2 sc dev mach2)
             (mapKey user2 (start_TransactionID sc)) = Some (allocated mach2))))
     \<and> ((filter (\<lambda>m. Type m \<in> set (start_ShortAuthenticationString sc)) (VerificationMethods hks) = [])
         \<longrightarrow> (actuallyStartVerification X user2 sc dev mach2 =
           mach2\<lparr>sent := sent mach2 @
             [\<lparr>toUser = UserID dev, toDevice = DeviceID dev,
               content = ToDeviceVerificationCancel
                 \<lparr>cancel_TransactionID = start_TransactionID sc,
                  cancel_Reason = ''No common SAS methods'',
                  cancel_Code = VerificationCancelUnknownMethod\<rparr>\<rparr>]\<rparr>))"
  apply (intro conjI)
  subgoal by (rule commonSASMethods_filter)
  subgoal using accept_negotiated [OF assms(1-8)] unfolding commonSASMethods_filter by blast
  subgoal using accept_no_common_method [OF assms(1-5)] unfolding commonSASMethods_filter by blast
  subgoal using start_negotiated [OF assms(9)] unfolding commonSASMethods_filter by blast
  subgoal using start_no_common_method [OF assms(9)] unfolding commonSASMethods_filter by blast
  done

theorem sas_method_negotiation_witness:
  "commonSASMethods demoHooks [''decimal'', ''emoji''] = [\<lparr>Type = ''emoji''\<rparr>, \<lparr>Type = ''decimal''\<rparr>]
   \<and> (\<exists>mach'. handleVerificationAccept demoX ''@bob:ex''
          \<lparr>accept_TransactionID = ''T1'', accept_Method = ''m.sas.v1'',
           accept_KeyAgreementProtocol = ''curve25519-hkdf-sha256'', accept_Hash = ''sha256'',
           accept_MessageAuthenticationCode = ''hkdf-hmac-sha256'',
           accept_ShortAuthenticationString = [''decimal'', ''emoji''],
           accept_Commitment = ''cm''\<rparr> (demoWith demoState) = Some mach'
        \<and> chosenSASMethod (verStates mach' 0) = Some \<lparr>Type = ''emoji''\<rparr>)
   \<and> (\<exists>mach'. handleVerificationAccept demoX ''@bob:ex''
          \<lparr>accept_TransactionID = ''T1'', accept_Method = ''m.sas.v1'',
           accept_KeyAgreementProtocol = ''curve25519-hkdf-sha256'', accept_Hash = ''sha256'',
           accept_MessageAuthenticationCode = ''hkdf-hmac-sha256'',
           accept_ShortAuthenticationString = [''qr''],
           accept_Commitment = ''cm''\<rparr> (demoWith demoState) = Some mach'
        \<and> keyVerificationTransactionState mach' (mapKey ''@bob:ex'' ''T1'') = None)"
proof -
  let ?m = "demoWith demoState"
  let ?c = "\<lambda>ms. \<lparr>accept_TransactionID = ''T1'', accept_Method = ''m.sas.v1'',
           accept_KeyAgreementProtocol = ''curve25519-hkdf-sha256'', accept_Hash = ''sha256'',
           accept_MessageAuthenticationCode = ''hkdf-hmac-sha256'',
           accept_ShortAuthenticationString = ms,
           accept_Commitment = ''cm''\<rparr>"
  let ?sc = "\<lparr>start_FromDevice = ''BOBDEV'', start_TransactionID = ''T2'', start_Method = ''m.sas.v1'',
      start_KeyAgreementProtocols = [], start_Hashes = [], start_MessageAuthenticationCodes = [],
      start_ShortAuthenticationString = [''decimal'']\<rparr>"
  have h1: "keyVerificationTransactionState ?m (mapKey ''@bob:ex'' (accept_TransactionID (?c ms))) = Some 0" for ms
    by (simp add: demoWith_def mapKey_def)
  have h2: "UserID (otherDevice (verStates ?m 0)) = ''@bob:ex''"
    by (simp add: demoWith_def demoState_def demoDevice_def)
  have h3: "extendTimeout (verStates ?m 0) = Some CtxRunning"
    by (simp add: demoWith_def demoState_def)
  have h4: "initiatedByUs (verStates ?m 0)" and h5: "\<not> verificationStarted (verStates ?m 0)"
    by (simp_all add: demoWith_def demoState_def)
  have h6: "accept_KeyAgreementProtocol (?c ms) = KeyAgreementCurve25519HKDFSHA256 demoX"
    and h7: "accept_Hash (?c ms) = VerificationHashSHA256 demoX"
    and h8: "accept_MessageAuthenticationCode (?c ms) = HKDFHMACSHA256 demoX" for ms
    by (simp_all add: demoX_def)
  have h9: "AcceptVerificationFrom demoX (start_TransactionID ?sc) demoDevice = (AcceptRequest, demoHooks)"
    by (simp add: demoX_def)
  have hk: "hooks (verStates ?m 0) = demoHooks"
    by (simp add: demoWith_def demoState_def)
  note t1 = sas_method_negotiation [OF h1 h2 h3 h4 h5 h6 h7 h8 h9,
      of "[''decimal'', ''emoji'']" "[''decimal'', ''emoji'']" undefined undefined]
  note t2 = sas_method_negotiation [OF h1 h2 h3 h4 h5 h6 h7 h8 h9,
      of "[''qr'']" "[''qr'']" undefined undefined]
  have a: "commonSASMethods demoHooks [''decimal'', ''emoji''] = [\<lparr>Type = ''emoji''\<rparr>, \<lparr>Type = ''decimal''\<rparr>]"
    using t1 by (simp add: demoHooks_def)
  have b: "\<exists>mach'. handleVerificationAccept demoX ''@bob:ex'' (?c [''decimal'', ''emoji'']) ?m = Some mach'
        \<and> chosenSASMethod (verStates mach' 0) = Some \<lparr>Type = ''emoji''\<rparr>"
    using t1 by (simp add: hk demoHooks_def) blast
  have c: "\<exists>mach'. handleVerificationAccept demoX ''@bob:ex'' (?c [''qr'']) ?m = Some mach'
        \<and> keyVerificationTransactionState mach' (mapKey ''@bob:ex'' ''T1'') = None"
    using t2 by (simp add: hk demoHooks_def) force
  show ?thesis
    using a b c by simp
qed

theorem getPKAndKeysMAC_key_order_witness:
  "distinct (map fst [(''ed25519:B'', ''x''), (''ed25519:A'', ''y'')])
   \<and> distinct (map fst [(''ed25519:A'', ''z''), (''ed25519:B'', ''w'')])
   \<and> set (map fst [(''ed25519:B'', ''x''), (''ed25519:A'', ''y'')]) =
       set (map fst [(''ed25519:A'', ''z''), (''ed25519:B'', ''w'')])
   \<and> getPKAndKeysMAC demoX (''pub'', ''peer'') ''@bob:ex'' ''BOBDEV'' ''@alice:ex'' ''ALICEDEV'' ''T1''
        ''bobsign'' ''ed25519:BOBDEV'' (Some [(''ed25519:B'', ''x''), (''ed25519:A'', ''y'')]) =
      getPKAndKeysMAC demoX (''pub'', ''peer'') ''@bob:ex'' ''BOBDEV'' ''@alice:ex'' ''ALICEDEV'' ''T1''
        ''bobsign'' ''ed25519:BOBDEV'' (Some [(''ed25519:A'', ''z''), (''ed25519:B'', ''w'')])"
proof -
  have d1: "distinct (map fst [(''ed25519:B'', ''x''), (''ed25519:A'', ''y'')])"
    and d2: "distinct (map fst [(''ed25519:A'', ''z''), (''ed25519:B'', ''w'')])"
    and s: "set (map fst [(''ed25519:B'', ''x''), (''ed25519:A'', ''y'')]) =
       set (map fst [(''ed25519:A'', ''z''), (''ed25519:B'', ''w'')])"
    by auto
  from getPKAndKeysMAC_key_order [OF d1 d2 s, where X = demoX and s = "(''pub'', ''peer'')"
      and Us = "''@bob:ex''" and Ds = "''BOBDEV''" and Ur = "''@alice:ex''" and Dr = "''ALICEDEV''"
      and T = "''T1''" and signingKey = "''bobsign''" and mainKeyID = "''ed25519:BOBDEV''"]
  have "getPKAndKeysMAC demoX (''pub'', ''peer'') ''@bob:ex'' ''BOBDEV'' ''@alice:ex'' ''ALICEDEV'' ''T1''
        ''bobsign'' ''ed25519:BOBDEV'' (Some [(''ed25519:B'', ''x''), (''ed25519:A'', ''y'')]) =
      getPKAndKeysMAC demoX (''pub'', ''peer'') ''@bob:ex'' ''BOBDEV'' ''@alice:ex'' ''ALICEDEV'' ''T1''
        ''bobsign'' ''ed25519:BOBDEV'' (Some [(''ed25519:A'', ''z''), (''ed25519:B'', ''w'')])"
    by (rule conjunct1)
  with d1 d2 s show ?thesis
    by (intro conjI)
qed

subsection \<open>Commitment\<close>

lemma accept_commitment:
  assumes "start_Method startEvent = VerificationMethodSAS X"
    and "CanonicalJSON X startEvent = Inr canonical"
  shows "fst (SendSASVerificationAccept X fromUser startEvent publicKey methods mach) =
            mach\<lparr>sent := sent mach @
              [\<lparr>toUser = fromUser, toDevice = start_FromDevice startEvent,
                content = ToDeviceVerificationAccept
                  \<lparr>accept_TransactionID = start_TransactionID startEvent,
                   accept_Method = VerificationMethodSAS X,
                   accept_KeyAgreementProtocol = KeyAgreementCurve25519HKDFSHA256 X,
                   accept_Hash = VerificationHashSHA256 X,
                   accept_MessageAuthenticationCode = HKDFHMACSHA256 X,
                   accept_ShortAuthenticationString = map Type methods,
                   accept_Commitment = Sha256 X (publicKey @ canonical)\<rparr>\<rparr>]\<rparr>"
  using assms
  by (simp add: SendSASVerificationAccept_def sendToOneDevice_def Let_def)

lemma key_commitment_mismatch:
  assumes "keyVerificationTransactionState mach (mapKey userID (key_TransactionID c)) = Some a"
    and "UserID (otherDevice (verStates mach a)) = userID"
    and "extendTimeout (verStates mach a) = Some ctx"
    and "verificationStarted (verStates mach a)" and "\<not> keyReceived (verStates mach a)"
    and "initiatedByUs (verStates mach a)"
    and "SetTheirKey X (sas (verStates mach a)) (key_Key c) = Inr sas'"
    and "Sha256 X (key_Key c @ startEventCanonical (verStates mach a)) \<noteq> commitment (verStates mach a)"
  shows "\<exists>mach'. handleVerificationKey X userID c mach = Some mach'
     \<and> keyVerificationTransactionState mach' =
         (keyVerificationTransactionState mach)(mapKey userID (key_TransactionID c) := None)
     \<and> sent mach' = sent mach @
          [\<lparr>toUser = userID, toDevice = DeviceID (otherDevice (verStates mach a)),
            content = ToDeviceVerificationCancel
              \<lparr>cancel_TransactionID = key_TransactionID c,
               cancel_Reason = ''Commitment mismatch'',
               cancel_Code = VerificationCancelCommitmentMismatch\<rparr>\<rparr>]
     \<and> hookCalls mach' = hookCalls mach @
          [OnCancel (hooksID (hooks (verStates mach a))) True ''Commitment mismatch''
             VerificationCancelCommitmentMismatch]
     \<and> goroutines mach' = goroutines mach"
  using assms
  by (auto simp add: handleVerificationKey_def getTransactionState_found callExtendTimeout_armed
      callbackAndCancel_eq Let_def updVerState_def Delete_def)

lemma handleVerificationKey_compare_quiet:
  "handleVerificationKey_compare X a c mach = Some mach' \<Longrightarrow>
   keyVerificationTransactionState mach' = keyVerificationTransactionState mach
   \<and> sent mach' = sent mach \<and> hookCalls mach' = hookCalls mach
   \<and> verStates mach' = verStates mach \<and> putDeviceCalls mach' = putDeviceCalls mach"
  by (auto simp add: handleVerificationKey_compare_def Let_def split: option.splits sum.splits prod.splits if_splits)

lemma key_commitment_match:
  assumes "keyVerificationTransactionState mach (mapKey userID (key_TransactionID c)) = Some a"
    and "UserID (otherDevice (verStates mach a)) = userID"
    and "extendTimeout (verStates mach a) = Some ctx"
    and "verificationStarted (verStates mach a)" and "\<not> keyReceived (verStates mach a)"
    and "initiatedByUs (verStates mach a)"
    and "SetTheirKey X (sas (verStates mach a)) (key_Key c) = Inr sas'"
    and "Sha256 X (key_Key c @ startEventCanonical (verStates mach a)) = commitment (verStates mach a)"
    and "handleVerificationKey X userID c mach = Some mach'"
  shows "keyVerificationTransactionState mach' = keyVerificationTransactionState mach
     \<and> sent mach' = sent mach \<and> hookCalls mach' = hookCalls mach
     \<and> sas (verStates mach' a) = sas' \<and> keyReceived (verStates mach' a)"
proof -
  let ?m3 = "updVerState a (\<lambda>v. v\<lparr>sas := sas', keyReceived := True\<rparr>)
      (updVerState a
            (\<lambda>vs. vs\<lparr>extendTimeout := Some (if ctx = CtxRunning then CtxCanceled else ctx)\<rparr>) mach)"
  have "handleVerificationKey X userID c mach = handleVerificationKey_compare X a c ?m3"
    using assms(1-8)
    by (simp add: handleVerificationKey_def getTransactionState_found callExtendTimeout_armed
        Let_def updVerState_def)
  with assms(9) have "handleVerificationKey_compare X a c ?m3 = Some mach'"
    by simp
  from handleVerificationKey_compare_quiet [OF this] show ?thesis
    by (simp add: updVerState_def)
qed

lemma start_sends_commitment:
  assumes "AcceptVerificationFrom X (start_TransactionID sc) dev = (AcceptRequest, hks)"
    and "commonSASMethods hks (start_ShortAuthenticationString sc) \<noteq> []"
    and "keyVerificationTransactionState mach (mapKey userID (start_TransactionID sc)) = None"
    and "start_Method sc = VerificationMethodSAS X"
    and "CanonicalJSON X sc = Inr canonical"
  shows "sent (actuallyStartVerification X userID sc dev mach) = sent mach @
              [\<lparr>toUser = userID, toDevice = start_FromDevice sc,
                content = ToDeviceVerificationAccept
                  \<lparr>accept_TransactionID = start_TransactionID sc,
                   accept_Method = VerificationMethodSAS X,
                   accept_KeyAgreementProtocol = KeyAgreementCurve25519HKDFSHA256 X,
                   accept_Hash = VerificationHashSHA256 X,
                   accept_MessageAuthenticationCode = HKDFHMACSHA256 X,
                   accept_ShortAuthenticationString =
                     map Type (commonSASMethods hks (start_ShortAuthenticationString sc)),
                   accept_Commitment = Sha256 X (GetPubkey X (NewSAS X (draws mach)) @ canonical)\<rparr>\<rparr>]"
  using assms
  by (simp add: actuallyStartVerification_def Let_def Store_def timeoutAfter_def updVerState_def
      accept_commitment)

lemma new_result:
  assumes "T \<noteq> []"
    and "keyVerificationTransactionState mach0 (mapKey (UserID device) T) = None"
    and "SendToDevice X \<lparr>toUser = UserID device, toDevice = DeviceID device,
           content = ToDeviceVerificationStart
             \<lparr>start_FromDevice = Client_DeviceID mach0,
              start_TransactionID = T,
              start_Method = VerificationMethodSAS X,
              start_KeyAgreementProtocols = [KeyAgreementCurve25519HKDFSHA256 X],
              start_Hashes = [VerificationHashSHA256 X],
              start_MessageAuthenticationCodes = [HKDFHMACSHA256 X],
              start_ShortAuthenticationString = map Type (VerificationMethods hks)\<rparr>\<rparr> = None"
    and "CanonicalJSON X
             \<lparr>start_FromDevice = Client_DeviceID mach0,
              start_TransactionID = T,
              start_Method = VerificationMethodSAS X,
              start_KeyAgreementProtocols = [KeyAgreementCurve25519HKDFSHA256 X],
              start_Hashes = [VerificationHashSHA256 X],
              start_MessageAuthenticationCodes = [HKDFHMACSHA256 X],
              start_ShortAuthenticationString = map Type (VerificationMethods hks)\<rparr> = Inr canonical"
  shows "NewSASVerificationWith X device hks T mach0 =
     (mach0\<lparr>draws := Suc (draws mach0),
            sent := sent mach0 @
              [\<lparr>toUser = UserID device, toDevice = DeviceID device,
                content = ToDeviceVerificationStart
                  \<lparr>start_FromDevice = Client_DeviceID mach0,
                   start_TransactionID = T,
                   start_Method = VerificationMethodSAS X,
                   start_KeyAgreementProtocols = [KeyAgreementCurve25519HKDFSHA256 X],
                   start_Hashes = [VerificationHashSHA256 X],
                   start_MessageAuthenticationCodes = [HKDFHMACSHA256 X],
                   start_ShortAuthenticationString = map Type (VerificationMethods hks)\<rparr>\<rparr>],
            keyVerificationTransactionState :=
              (keyVerificationTransactionState mach0)(mapKey (UserID device) T \<mapsto> allocated mach0),
            verStates := (verStates mach0)(allocated mach0 :=
              \<lparr>sas = NewSAS X (draws mach0),
               otherDevice = device,
               initiatedByUs = True,
               verificationStarted = False,
               keyReceived = False,
               sasMatched = None,
               commitment = [],
               startEventCanonical = canonical,
               chosenSASMethod = None,
               hooks = hks,
               extendTimeout = Some CtxRunning\<rparr>),
            allocated := Suc (allocated mach0),
            goroutines := goroutines mach0 @ [GoTimeout (allocated mach0) T]\<rparr>, Inr T)"
  using assms
  by (simp add: NewSASVerificationWith_def SendSASVerificationStart_def sendToOneDevice_def Let_def
      Store_def timeoutAfter_def updVerState_def)

lemma accept_result:
  assumes "keyVerificationTransactionState mach (mapKey userID (accept_TransactionID c)) = Some a"
    and "UserID (otherDevice (verStates mach a)) = userID"
    and "extendTimeout (verStates mach a) = Some ctx"
    and "initiatedByUs (verStates mach a)" and "\<not> verificationStarted (verStates mach a)"
    and "accept_KeyAgreementProtocol c = KeyAgreementCurve25519HKDFSHA256 X"
    and "accept_Hash c = VerificationHashSHA256 X"
    and "accept_MessageAuthenticationCode c = HKDFHMACSHA256 X"
    and "commonSASMethods (hooks (verStates mach a)) (accept_ShortAuthenticationString c) \<noteq> []"
  shows "handleVerificationAccept X userID c mach =
     Some (mach\<lparr>verStates := (verStates mach)(a := (verStates mach a)
                   \<lparr>extendTimeout := Some (if ctx = CtxRunning then CtxCanceled else ctx),
                    commitment := accept_Commitment c,
                    chosenSASMethod := Some (hd (commonSASMethods (hooks (verStates mach a))
                                                    (accept_ShortAuthenticationString c))),
                    verificationStarted := True\<rparr>),
                sent := sent mach @
                  [\<lparr>toUser = userID, toDevice = DeviceID (otherDevice (verStates mach a)),
                    content = ToDeviceVerificationKey
                      \<lparr>key_TransactionID = accept_TransactionID c,
                       key_Key = GetPubkey X (sas (verStates mach a))\<rparr>\<rparr>]\<rparr>)"
  using assms
  by (simp add: handleVerificationAccept_def getTransactionState_found callExtendTimeout_armed
      Let_def updVerState_def SendSASVerificationKey_def sendToOneDevice_def)

text \<open>
  C2. The commitment is the SHA-256 of the responder's public key followed directly by
  the canonical JSON of the Start message, and the initiator checks it against what it
  retained. Let \<open>NewSASVerificationWith\<close> start a transaction (free key, Start message
  sent, canonical form \<open>canonical\<close>): the stored state retains \<open>canonical\<close>. A responder
  that accepts this Start message answers with the commitment
  \<open>Sha256 (publicKey @ canonical)\<close>, its own public key being the one of its new SAS
  object. When the initiator then handles an expected Accept message, the commitment of
  that message is stored and the retained payload is kept; and on the following Key
  message, whose key the SAS object accepts, \<open>Sha256 (key @ canonical)\<close> is compared
  with the commitment of the Accept message: if they differ the transaction is deleted,
  a Cancel with the commitment-mismatch code is sent and \<open>OnCancel\<close> is called; if they
  are equal the transaction stays, nothing is sent and no hook is called.
\<close>

theorem commitment_check:
  fixes X :: "'sas Collaborators" and mach0 machR :: "'sas OlmMachine"
    and T :: string and hks :: VerificationHooks and device :: DeviceIdentity
  defines "S \<equiv> \<lparr>start_FromDevice = Client_DeviceID mach0,
              start_TransactionID = T,
              start_Method = VerificationMethodSAS X,
              start_KeyAgreementProtocols = [KeyAgreementCurve25519HKDFSHA256 X],
              start_Hashes = [VerificationHashSHA256 X],
              start_MessageAuthenticationCodes = [HKDFHMACSHA256 X],
              start_ShortAuthenticationString = map Type (VerificationMethods hks)\<rparr>"
    and "k \<equiv> mapKey (UserID device) T"
    and "a \<equiv> allocated mach0"
  assumes "T \<noteq> []"
    and "keyVerificationTransactionState mach0 k = None"
    and "SendToDevice X \<lparr>toUser = UserID device, toDevice = DeviceID device,
           content = ToDeviceVerificationStart S\<rparr> = None"
    and "CanonicalJSON X S = Inr canonical"
    and "accept_TransactionID acc = T"
    and "accept_KeyAgreementProtocol acc = KeyAgreementCurve25519HKDFSHA256 X"
    and "accept_Hash acc = VerificationHashSHA256 X"
    and "accept_MessageAuthenticationCode acc = HKDFHMACSHA256 X"
    and "commonSASMethods hks (accept_ShortAuthenticationString acc) \<noteq> []"
    and "key_TransactionID c = T"
    and "SetTheirKey X (NewSAS X (draws mach0)) (key_Key c) = Inr sas'"
  shows "fst (SendSASVerificationAccept X fromUser S publicKey methods machR) =
            machR\<lparr>sent := sent machR @
              [\<lparr>toUser = fromUser, toDevice = start_FromDevice S,
                content = ToDeviceVerificationAccept
                  \<lparr>accept_TransactionID = T,
                   accept_Method = VerificationMethodSAS X,
                   accept_KeyAgreementProtocol = KeyAgreementCurve25519HKDFSHA256 X,
                   accept_Hash = VerificationHashSHA256 X,
                   accept_MessageAuthenticationCode = HKDFHMACSHA256 X,
                   accept_ShortAuthenticationString = map Type methods,
                   accept_Commitment = Sha256 X (publicKey @ canonical)\<rparr>\<rparr>]\<rparr>
     \<and> (AcceptVerificationFrom X T dev = (AcceptRequest, hksR) \<longrightarrow>
          commonSASMethods hksR (start_ShortAuthenticationString S) \<noteq> [] \<longrightarrow>
          keyVerificationTransactionState machR (mapKey fromUser T) = None \<longrightarrow>
          sent (actuallyStartVerification X fromUser S dev machR) = sent machR @
              [\<lparr>toUser = fromUser, toDevice = start_FromDevice S,
                content = ToDeviceVerificationAccept
                  \<lparr>accept_TransactionID = T,
                   accept_Method = VerificationMethodSAS X,
                   accept_KeyAgreementProtocol = KeyAgreementCurve25519HKDFSHA256 X,
                   accept_Hash = VerificationHashSHA256 X,
                   accept_MessageAuthenticationCode = HKDFHMACSHA256 X,
                   accept_ShortAuthenticationString =
                     map Type (commonSASMethods hksR (start_ShortAuthenticationString S)),
                   accept_Commitment =
                     Sha256 X (GetPubkey X (NewSAS X (draws machR)) @ canonical)\<rparr>\<rparr>])
     \<and> (\<exists>mach1 mach2.
           NewSASVerificationWith X device hks T mach0 = (mach1, Inr T)
         \<and> sent mach1 = sent mach0 @
              [\<lparr>toUser = UserID device, toDevice = DeviceID device,
                content = ToDeviceVerificationStart S\<rparr>]
         \<and> keyVerificationTransactionState mach1 k = Some a
         \<and> startEventCanonical (verStates mach1 a) = canonical
         \<and> handleVerificationAccept X (UserID device) acc mach1 = Some mach2
         \<and> keyVerificationTransactionState mach2 k = Some a
         \<and> commitment (verStates mach2 a) = accept_Commitment acc
         \<and> startEventCanonical (verStates mach2 a) = canonical
         \<and> (Sha256 X (key_Key c @ canonical) \<noteq> accept_Commitment acc \<longrightarrow>
              (\<exists>mach3. handleVerificationKey X (UserID device) c mach2 = Some mach3
                 \<and> keyVerificationTransactionState mach3 k = None
                 \<and> sent mach3 = sent mach2 @
                      [\<lparr>toUser = UserID device, toDevice = DeviceID device,
                        content = ToDeviceVerificationCancel
                          \<lparr>cancel_TransactionID = T,
                           cancel_Reason = ''Commitment mismatch'',
                           cancel_Code = VerificationCancelCommitmentMismatch\<rparr>\<rparr>]
                 \<and> hookCalls mach3 = hookCalls mach2 @
                      [OnCancel (hooksID hks) True ''Commitment mismatch''
                         VerificationCancelCommitmentMismatch]))
         \<and> (Sha256 X (key_Key c @ canonical) = accept_Commitment acc \<longrightarrow>
              (\<forall>mach3. handleVerificationKey X (UserID device) c mach2 = Some mach3 \<longrightarrow>
                 keyVerificationTransactionState mach3 k = Some a
                 \<and> sent mach3 = sent mach2 \<and> hookCalls mach3 = hookCalls mach2
                 \<and> sas (verStates mach3 a) = sas' \<and> keyReceived (verStates mach3 a))))"
proof (intro conjI)
  have sm: "start_Method S = VerificationMethodSAS X"
    by (simp add: S_def)
  have tid: "start_TransactionID S = T"
    by (simp add: S_def)
  show "fst (SendSASVerificationAccept X fromUser S publicKey methods machR) =
            machR\<lparr>sent := sent machR @
              [\<lparr>toUser = fromUser, toDevice = start_FromDevice S,
                content = ToDeviceVerificationAccept
                  \<lparr>accept_TransactionID = T,
                   accept_Method = VerificationMethodSAS X,
                   accept_KeyAgreementProtocol = KeyAgreementCurve25519HKDFSHA256 X,
                   accept_Hash = VerificationHashSHA256 X,
                   accept_MessageAuthenticationCode = HKDFHMACSHA256 X,
                   accept_ShortAuthenticationString = map Type methods,
                   accept_Commitment = Sha256 X (publicKey @ canonical)\<rparr>\<rparr>]\<rparr>"
    using accept_commitment [OF sm assms(7)] by (simp only: tid)
  show "AcceptVerificationFrom X T dev = (AcceptRequest, hksR) \<longrightarrow>
          commonSASMethods hksR (start_ShortAuthenticationString S) \<noteq> [] \<longrightarrow>
          keyVerificationTransactionState machR (mapKey fromUser T) = None \<longrightarrow>
          sent (actuallyStartVerification X fromUser S dev machR) = sent machR @
              [\<lparr>toUser = fromUser, toDevice = start_FromDevice S,
                content = ToDeviceVerificationAccept
                  \<lparr>accept_TransactionID = T,
                   accept_Method = VerificationMethodSAS X,
                   accept_KeyAgreementProtocol = KeyAgreementCurve25519HKDFSHA256 X,
                   accept_Hash = VerificationHashSHA256 X,
                   accept_MessageAuthenticationCode = HKDFHMACSHA256 X,
                   accept_ShortAuthenticationString =
                     map Type (commonSASMethods hksR (start_ShortAuthenticationString S)),
                   accept_Commitment =
                     Sha256 X (GetPubkey X (NewSAS X (draws machR)) @ canonical)\<rparr>\<rparr>]"
    using start_sends_commitment [where sc = S and X = X and dev = dev and hks = hksR
        and mach = machR and userID = fromUser, OF _ _ _ sm assms(7)]
    by (simp only: tid) blast
  obtain mach1 where n: "NewSASVerificationWith X device hks T mach0 = (mach1, Inr T)"
    and m1: "mach1 = mach0\<lparr>draws := Suc (draws mach0),
            sent := sent mach0 @
              [\<lparr>toUser = UserID device, toDevice = DeviceID device,
                content = ToDeviceVerificationStart S\<rparr>],
            keyVerificationTransactionState :=
              (keyVerificationTransactionState mach0)(k \<mapsto> a),
            verStates := (verStates mach0)(a :=
              \<lparr>sas = NewSAS X (draws mach0),
               otherDevice = device,
               initiatedByUs = True,
               verificationStarted = False,
               keyReceived = False,
               sasMatched = None,
               commitment = [],
               startEventCanonical = canonical,
               chosenSASMethod = None,
               hooks = hks,
               extendTimeout = Some CtxRunning\<rparr>),
            allocated := Suc a,
            goroutines := goroutines mach0 @ [GoTimeout a T]\<rparr>"
    using new_result [OF assms(4) assms(5) [unfolded k_def] assms(6) [unfolded S_def] assms(7) [unfolded S_def]]
    by (simp add: S_def k_def a_def)
  have a1: "keyVerificationTransactionState mach1 (mapKey (UserID device) (accept_TransactionID acc)) = Some a"
    and a2: "UserID (otherDevice (verStates mach1 a)) = UserID device"
    and a3: "extendTimeout (verStates mach1 a) = Some CtxRunning"
    and a4: "initiatedByUs (verStates mach1 a)" and a5: "\<not> verificationStarted (verStates mach1 a)"
    and a9: "commonSASMethods (hooks (verStates mach1 a)) (accept_ShortAuthenticationString acc) \<noteq> []"
    using assms(8,12) by (simp_all add: m1 k_def)
  note ar = accept_result [OF a1 a2 a3 a4 a5 assms(9,10,11) a9]
  obtain mach2 where acc2: "handleVerificationAccept X (UserID device) acc mach1 = Some mach2"
    and st2: "keyVerificationTransactionState mach2 = keyVerificationTransactionState mach1"
    and vs2: "verStates mach2 a =
       \<lparr>sas = NewSAS X (draws mach0),
               otherDevice = device,
               initiatedByUs = True,
               verificationStarted = True,
               keyReceived = False,
               sasMatched = None,
               commitment = accept_Commitment acc,
               startEventCanonical = canonical,
               chosenSASMethod = Some (hd (commonSASMethods hks (accept_ShortAuthenticationString acc))),
               hooks = hks,
               extendTimeout = Some CtxCanceled\<rparr>"
    using ar by (simp add: m1)
  have k1: "keyVerificationTransactionState mach2 (mapKey (UserID device) (key_TransactionID c)) = Some a"
    and k2: "UserID (otherDevice (verStates mach2 a)) = UserID device"
    and k3: "extendTimeout (verStates mach2 a) = Some CtxCanceled"
    and k4: "verificationStarted (verStates mach2 a)" and k5: "\<not> keyReceived (verStates mach2 a)"
    and k6: "initiatedByUs (verStates mach2 a)"
    and k7: "SetTheirKey X (sas (verStates mach2 a)) (key_Key c) = Inr sas'"
    using assms(13,14) by (simp_all add: st2 vs2 m1 k_def)
  have mis: "\<exists>mach3. handleVerificationKey X (UserID device) c mach2 = Some mach3
                 \<and> keyVerificationTransactionState mach3 k = None
                 \<and> sent mach3 = sent mach2 @
                      [\<lparr>toUser = UserID device, toDevice = DeviceID device,
                        content = ToDeviceVerificationCancel
                          \<lparr>cancel_TransactionID = T,
                           cancel_Reason = ''Commitment mismatch'',
                           cancel_Code = VerificationCancelCommitmentMismatch\<rparr>\<rparr>]
                 \<and> hookCalls mach3 = hookCalls mach2 @
                      [OnCancel (hooksID hks) True ''Commitment mismatch''
                         VerificationCancelCommitmentMismatch]"
    if "Sha256 X (key_Key c @ canonical) \<noteq> accept_Commitment acc"
  proof -
    from that have "Sha256 X (key_Key c @ startEventCanonical (verStates mach2 a)) \<noteq> commitment (verStates mach2 a)"
      by (simp add: vs2)
    from key_commitment_mismatch [OF k1 k2 k3 k4 k5 k6 k7 this]
    obtain m3 where r: "handleVerificationKey X (UserID device) c mach2 = Some m3"
      and r1: "keyVerificationTransactionState m3 =
         (keyVerificationTransactionState mach2)(mapKey (UserID device) (key_TransactionID c) := None)"
      and r2: "sent m3 = sent mach2 @
          [\<lparr>toUser = UserID device, toDevice = DeviceID (otherDevice (verStates mach2 a)),
            content = ToDeviceVerificationCancel
              \<lparr>cancel_TransactionID = key_TransactionID c,
               cancel_Reason = ''Commitment mismatch'',
               cancel_Code = VerificationCancelCommitmentMismatch\<rparr>\<rparr>]"
      and r3: "hookCalls m3 = hookCalls mach2 @
          [OnCancel (hooksID (hooks (verStates mach2 a))) True ''Commitment mismatch''
             VerificationCancelCommitmentMismatch]"
      by blast
    show ?thesis
      using r r1 r2 r3 assms(13) by (simp add: vs2 k_def)
  qed
  have mat: "\<forall>mach3. handleVerificationKey X (UserID device) c mach2 = Some mach3 \<longrightarrow>
                 keyVerificationTransactionState mach3 k = Some a
                 \<and> sent mach3 = sent mach2 \<and> hookCalls mach3 = hookCalls mach2
                 \<and> sas (verStates mach3 a) = sas' \<and> keyReceived (verStates mach3 a)"
    if "Sha256 X (key_Key c @ canonical) = accept_Commitment acc"
  proof (intro allI impI)
    fix mach3 assume h: "handleVerificationKey X (UserID device) c mach2 = Some mach3"
    from that have "Sha256 X (key_Key c @ startEventCanonical (verStates mach2 a)) = commitment (verStates mach2 a)"
      by (simp add: vs2)
    from key_commitment_match [OF k1 k2 k3 k4 k5 k6 k7 this h]
    show "keyVerificationTransactionState mach3 k = Some a
                 \<and> sent mach3 = sent mach2 \<and> hookCalls mach3 = hookCalls mach2
                 \<and> sas (verStates mach3 a) = sas' \<and> keyReceived (verStates mach3 a)"
      by (simp add: st2 m1)
  qed
  have f1: "sent mach1 = sent mach0 @
              [\<lparr>toUser = UserID device, toDevice = DeviceID device,
                content = ToDeviceVerificationStart S\<rparr>]"
    and f2: "keyVerificationTransactionState mach1 k = Some a"
    and f3: "startEventCanonical (verStates mach1 a) = canonical"
    by (simp_all add: m1)
  have f4: "keyVerificationTransactionState mach2 k = Some a"
    and f5: "commitment (verStates mach2 a) = accept_Commitment acc"
    and f6: "startEventCanonical (verStates mach2 a) = canonical"
    by (simp_all add: st2 vs2 m1)
  show "\<exists>mach1 mach2.
           NewSASVerificationWith X device hks T mach0 = (mach1, Inr T)
         \<and> sent mach1 = sent mach0 @
              [\<lparr>toUser = UserID device, toDevice = DeviceID device,
                content = ToDeviceVerificationStart S\<rparr>]
         \<and> keyVerificationTransactionState mach1 k = Some a
         \<and> startEventCanonical (verStates mach1 a) = canonical
         \<and> handleVerificationAccept X (UserID device) acc mach1 = Some mach2
         \<and> keyVerificationTransactionState mach2 k = Some a
         \<and> commitment (verStates mach2 a) = accept_Commitment acc
         \<and> startEventCanonical (verStates mach2 a) = canonical
         \<and> (Sha256 X (key_Key c @ canonical) \<noteq> accept_Commitment acc \<longrightarrow>
              (\<exists>mach3. handleVerificationKey X (UserID device) c mach2 = Some mach3
                 \<and> keyVerificationTransactionState mach3 k = None
                 \<and> sent mach3 = sent mach2 @
                      [\<lparr>toUser = UserID device, toDevice = DeviceID device,
                        content = ToDeviceVerificationCancel
                          \<lparr>cancel_TransactionID = T,
                           cancel_Reason = ''Commitment mismatch'',
                           cancel_Code = VerificationCancelCommitmentMismatch\<rparr>\<rparr>]
                 \<and> hookCalls mach3 = hookCalls mach2 @
                      [OnCancel (hooksID hks) True ''Commitment mismatch''
                         VerificationCancelCommitmentMismatch]))
         \<and> (Sha256 X (key_Key c @ canonical) = accept_Commitment acc \<longrightarrow>
              (\<forall>mach3. handleVerificationKey X (UserID device) c mach2 = Some mach3 \<longrightarrow>
                 keyVerificationTransactionState mach3 k = Some a
                 \<and> sent mach3 = sent mach2 \<and> hookCalls mach3 = hookCalls mach2
                 \<and> sas (verStates mach3 a) = sas' \<and> keyReceived (verStates mach3 a)))"
    apply (rule exI [of _ mach1])
    apply (rule exI [of _ mach2])
    apply (intro conjI impI)
    subgoal by (rule n)
    subgoal by (rule f1)
    subgoal by (rule f2)
    subgoal by (rule f3)
    subgoal by (rule acc2)
    subgoal by (rule f4)
    subgoal by (rule f5)
    subgoal by (rule f6)
    subgoal by (rule mis)
    subgoal by (rule mat)
    done
qed


theorem commitment_check_witness:
  "\<exists>mach1 mach2 mach3.
      NewSASVerificationWith demoX demoDevice demoHooks ''T1'' demoMach = (mach1, Inr ''T1'')
    \<and> startEventCanonical (verStates mach1 0) = ''{T1}''
    \<and> handleVerificationAccept demoX ''@bob:ex''
          \<lparr>accept_TransactionID = ''T1'', accept_Method = ''m.sas.v1'',
           accept_KeyAgreementProtocol = ''curve25519-hkdf-sha256'', accept_Hash = ''sha256'',
           accept_MessageAuthenticationCode = ''hkdf-hmac-sha256'',
           accept_ShortAuthenticationString = [''decimal''],
           accept_Commitment = ''sha256:other{T1}''\<rparr> mach1 = Some mach2
    \<and> commitment (verStates mach2 0) = ''sha256:other{T1}''
    \<and> handleVerificationKey demoX ''@bob:ex'' \<lparr>key_TransactionID = ''T1'', key_Key = ''peer''\<rparr> mach2 =
          Some mach3
    \<and> keyVerificationTransactionState mach3 (mapKey ''@bob:ex'' ''T1'') = None
    \<and> sent mach3 = sent mach2 @
          [\<lparr>toUser = ''@bob:ex'', toDevice = ''BOBDEV'',
            content = ToDeviceVerificationCancel
              \<lparr>cancel_TransactionID = ''T1'', cancel_Reason = ''Commitment mismatch'',
               cancel_Code = VerificationCancelCommitmentMismatch\<rparr>\<rparr>]"
proof -
  let ?acc = "\<lparr>accept_TransactionID = ''T1'', accept_Method = ''m.sas.v1'',
           accept_KeyAgreementProtocol = ''curve25519-hkdf-sha256'', accept_Hash = ''sha256'',
           accept_MessageAuthenticationCode = ''hkdf-hmac-sha256'',
           accept_ShortAuthenticationString = [''decimal''],
           accept_Commitment = ''sha256:other{T1}''\<rparr>"
  let ?c = "\<lparr>key_TransactionID = ''T1'', key_Key = ''peer''\<rparr>"
  have h1: "''T1'' \<noteq> []" by simp
  have h2: "keyVerificationTransactionState demoMach (mapKey (UserID demoDevice) ''T1'') = None"
    by (simp add: demoMach_def)
  have h3: "SendToDevice demoX \<lparr>toUser = UserID demoDevice, toDevice = DeviceID demoDevice,
           content = ToDeviceVerificationStart
             \<lparr>start_FromDevice = Client_DeviceID demoMach,
              start_TransactionID = ''T1'',
              start_Method = VerificationMethodSAS demoX,
              start_KeyAgreementProtocols = [KeyAgreementCurve25519HKDFSHA256 demoX],
              start_Hashes = [VerificationHashSHA256 demoX],
              start_MessageAuthenticationCodes = [HKDFHMACSHA256 demoX],
              start_ShortAuthenticationString = map Type (VerificationMethods demoHooks)\<rparr>\<rparr> = None"
    by (simp add: demoX_def)
  have h4: "CanonicalJSON demoX
             \<lparr>start_FromDevice = Client_DeviceID demoMach,
              start_TransactionID = ''T1'',
              start_Method = VerificationMethodSAS demoX,
              start_KeyAgreementProtocols = [KeyAgreementCurve25519HKDFSHA256 demoX],
              start_Hashes = [VerificationHashSHA256 demoX],
              start_MessageAuthenticationCodes = [HKDFHMACSHA256 demoX],
              start_ShortAuthenticationString = map Type (VerificationMethods demoHooks)\<rparr> = Inr ''{T1}''"
    by (simp add: demoX_def)
  have h5: "accept_TransactionID ?acc = ''T1''"
    and h6: "accept_KeyAgreementProtocol ?acc = KeyAgreementCurve25519HKDFSHA256 demoX"
    and h7: "accept_Hash ?acc = VerificationHashSHA256 demoX"
    and h8: "accept_MessageAuthenticationCode ?acc = HKDFHMACSHA256 demoX"
    by (simp_all add: demoX_def)
  have h9: "commonSASMethods demoHooks (accept_ShortAuthenticationString ?acc) \<noteq> []"
    by (simp add: commonSASMethods_def demoHooks_def)
  have h10: "key_TransactionID ?c = ''T1''" by simp
  have h11: "SetTheirKey demoX (NewSAS demoX (draws demoMach)) (key_Key ?c) = Inr (''pub'', ''peer'')"
    by (simp add: demoX_def)
  have ne: "Sha256 demoX (key_Key ?c @ ''{T1}'') \<noteq> accept_Commitment ?acc"
    by (simp add: demoX_def)
  from commitment_check [OF h1 h2 h3 h4 h5 h6 h7 h8 h9 h10 h11]
  obtain mach1 mach2 where
      n: "NewSASVerificationWith demoX demoDevice demoHooks ''T1'' demoMach = (mach1, Inr ''T1'')"
    and sc: "startEventCanonical (verStates mach1 (allocated demoMach)) = ''{T1}''"
    and ac: "handleVerificationAccept demoX (UserID demoDevice) ?acc mach1 = Some mach2"
    and cm: "commitment (verStates mach2 (allocated demoMach)) = accept_Commitment ?acc"
    and mis: "Sha256 demoX (key_Key ?c @ ''{T1}'') \<noteq> accept_Commitment ?acc \<longrightarrow>
              (\<exists>mach3. handleVerificationKey demoX (UserID demoDevice) ?c mach2 = Some mach3
                 \<and> keyVerificationTransactionState mach3 (mapKey (UserID demoDevice) ''T1'') = None
                 \<and> sent mach3 = sent mach2 @
                      [\<lparr>toUser = UserID demoDevice, toDevice = DeviceID demoDevice,
                        content = ToDeviceVerificationCancel
                          \<lparr>cancel_TransactionID = ''T1'',
                           cancel_Reason = ''Commitment mismatch'',
                           cancel_Code = VerificationCancelCommitmentMismatch\<rparr>\<rparr>]
                 \<and> hookCalls mach3 = hookCalls mach2 @
                      [OnCancel (hooksID demoHooks) True ''Commitment mismatch''
                         VerificationCancelCommitmentMismatch])"
    by blast
  from mis ne obtain mach3 where
      k: "handleVerificationKey demoX (UserID demoDevice) ?c mach2 = Some mach3"
    and k1: "keyVerificationTransactionState mach3 (mapKey (UserID demoDevice) ''T1'') = None"
    and k2: "sent mach3 = sent mach2 @
                      [\<lparr>toUser = UserID demoDevice, toDevice = DeviceID demoDevice,
                        content = ToDeviceVerificationCancel
                          \<lparr>cancel_TransactionID = ''T1'',
                           cancel_Reason = ''Commitment mismatch'',
                           cancel_Code = VerificationCancelCommitmentMismatch\<rparr>\<rparr>]"
    by blast
  have u: "UserID demoDevice = ''@bob:ex''" and d: "DeviceID demoDevice = ''BOBDEV''"
    and al: "allocated demoMach = 0"
    by (simp_all add: demoDevice_def demoMach_def)
  show ?thesis
    apply (rule exI [of _ mach1])
    apply (rule exI [of _ mach2])
    apply (rule exI [of _ mach3])
    using n sc ac cm k k1 k2 by (simp add: u d al)
qed

subsection \<open>What a step leaves alone: trust writes and success calls\<close>

lemma trust_sendToOneDevice [simp]:
  "putDeviceCalls (fst (sendToOneDevice X u d c mach)) = putDeviceCalls mach"
  "successCalls (fst (sendToOneDevice X u d c mach)) = successCalls mach"
  by (simp_all add: sendToOneDevice_def Let_def successCalls_def)

lemma trust_Cancel [simp]:
  "putDeviceCalls (fst (SendSASVerificationCancel X u d T r code mach)) = putDeviceCalls mach"
  "successCalls (fst (SendSASVerificationCancel X u d T r code mach)) = successCalls mach"
  by (simp_all add: SendSASVerificationCancel_def)

lemma trust_Key [simp]:
  "putDeviceCalls (fst (SendSASVerificationKey X u d T k mach)) = putDeviceCalls mach"
  "successCalls (fst (SendSASVerificationKey X u d T k mach)) = successCalls mach"
  by (simp_all add: SendSASVerificationKey_def)

lemma trust_Start [simp]:
  "putDeviceCalls (fst (SendSASVerificationStart X u d T ms mach)) = putDeviceCalls mach"
  "successCalls (fst (SendSASVerificationStart X u d T ms mach)) = successCalls mach"
  by (simp_all add: SendSASVerificationStart_def Let_def case_prod_unfold)

lemma trust_Accept [simp]:
  "putDeviceCalls (fst (SendSASVerificationAccept X u se pk ms mach)) = putDeviceCalls mach"
  "successCalls (fst (SendSASVerificationAccept X u se pk ms mach)) = successCalls mach"
  by (simp_all add: SendSASVerificationAccept_def Let_def case_prod_unfold
      split: sum.split option.split)

lemma trust_MAC [simp]:
  "putDeviceCalls (fst (SendSASVerificationMAC X u d T s mach)) = putDeviceCalls mach"
  "successCalls (fst (SendSASVerificationMAC X u d T s mach)) = successCalls mach"
  by (simp_all add: SendSASVerificationMAC_def Let_def case_prod_unfold split: sum.split)

lemma trust_callback [simp]:
  "putDeviceCalls (fst (callbackAndCancelSASVerification X a T r code mach)) = putDeviceCalls mach"
  "successCalls (fst (callbackAndCancelSASVerification X a T r code mach)) = successCalls mach"
  by (simp_all add: callbackAndCancel_eq successCalls_def)

lemma trust_Delete [simp]:
  "putDeviceCalls (Delete k mach) = putDeviceCalls mach"
  "successCalls (Delete k mach) = successCalls mach"
  by (simp_all add: Delete_def successCalls_def)

lemma trust_updVerState [simp]:
  "putDeviceCalls (updVerState a f mach) = putDeviceCalls mach"
  "successCalls (updVerState a f mach) = successCalls mach"
  by (simp_all add: updVerState_def successCalls_def)

lemma trust_Store [simp]:
  "putDeviceCalls (fst (Store k vs mach)) = putDeviceCalls mach"
  "successCalls (fst (Store k vs mach)) = successCalls mach"
  by (simp_all add: Store_def successCalls_def)

lemma trust_timeoutAfter [simp]:
  "putDeviceCalls (timeoutAfter a T mach) = putDeviceCalls mach"
  "successCalls (timeoutAfter a T mach) = successCalls mach"
  by (simp_all add: timeoutAfter_def Let_def successCalls_def updVerState_def)

lemma trust_fields [simp]:
  "successCalls (mach\<lparr>draws := n\<rparr>) = successCalls mach"
  "successCalls (mach\<lparr>goroutines := g\<rparr>) = successCalls mach"
  "successCalls (mach\<lparr>sent := s\<rparr>) = successCalls mach"
  by (simp_all add: successCalls_def)

lemma trust_getTransactionState [simp]:
  "putDeviceCalls (fst (getTransactionState X T u mach)) = putDeviceCalls mach"
  "successCalls (fst (getTransactionState X T u mach)) = successCalls mach"
  by (simp_all add: getTransactionState_def Let_def split: option.split)

lemma trust_callExtendTimeout:
  "callExtendTimeout a mach = Some mach' \<Longrightarrow>
   putDeviceCalls mach' = putDeviceCalls mach \<and> successCalls mach' = successCalls mach"
  by (auto simp add: callExtendTimeout_def split: option.splits)


















subsection \<open>MAC verification\<close>











end
